theory Spec2Isabelle
  imports
    Main
    "HOL-Library.Char_ord"
    "HOL-Library.List_Lexorder"
    "HOL-Library.Product_Lexorder"
begin

section \<open>The class ZoteroEntries of zotero.py\<close>

text \<open>
  The development follows \<^verbatim>\<open>src/python3/zotero.py\<close>. Python values that the
  source keeps in its dictionaries are values of \<open>pyval\<close>; a Python \<^verbatim>\<open>dict\<close>
  is an association list with distinct keys in insertion order; every exception the
  source can raise is a value \<open>Inl e\<close>, returned alone: what the object holds after
  an exception is not followed. Strings are lists of 8-bit characters and
  \<^verbatim>\<open>str.lower\<close>, \<^verbatim>\<open>str.title\<close> and the regular-expression class
  \<^verbatim>\<open>\W\<close> are followed on ASCII text.
\<close>

subsection \<open>Python values, errors and dictionaries\<close>

datatype error =
    KeyError | IndexError | TypeError | ValueError | AttributeError | ReError | Unmodelled

datatype pyval = VNone | VStr string | VList "pyval list"

type_synonym ('k, 'v) dict = "('k \<times> 'v) list"

type_synonym entry = "(string, pyval) dict"

definition bind_err :: "error + 'a \<Rightarrow> ('a \<Rightarrow> error + 'b) \<Rightarrow> error + 'b" where
  "bind_err x f = (case x of Inl er \<Rightarrow> Inl er | Inr v \<Rightarrow> f v)"

definition dict_keys :: "('k, 'v) dict \<Rightarrow> 'k list" where
  "dict_keys dc = map fst dc"

definition dict_has :: "('k, 'v) dict \<Rightarrow> 'k \<Rightarrow> bool" where
  "dict_has dc k = (k \<in> set (map fst dc))"

text \<open>\<^verbatim>\<open>dc[k]\<close>: a missing key raises KeyError.\<close>

definition dict_get :: "('k, 'v) dict \<Rightarrow> 'k \<Rightarrow> error + 'v" where
  "dict_get dc k = (case map_of dc k of None \<Rightarrow> Inl KeyError | Some v \<Rightarrow> Inr v)"

text \<open>\<^verbatim>\<open>dc[k] = v\<close>: an existing key keeps its place, a new key goes last.\<close>

fun dict_set :: "('k, 'v) dict \<Rightarrow> 'k \<Rightarrow> 'v \<Rightarrow> ('k, 'v) dict" where
  "dict_set [] k v = [(k, v)]"
| "dict_set (p # ps) k v = (if fst p = k then (k, v) # ps else p # dict_set ps k v)"

text \<open>\<^verbatim>\<open>dc.pop(k)\<close>, for a key that is present: the dictionary without it.\<close>

definition dict_pop :: "('k, 'v) dict \<Rightarrow> 'k \<Rightarrow> ('k, 'v) dict" where
  "dict_pop dc k = filter (\<lambda>p. fst p \<noteq> k) dc"

text \<open>Truth value of a Python object, as \<^verbatim>\<open>and\<close> and \<^verbatim>\<open>if\<close> test it.\<close>

fun py_truthy :: "pyval \<Rightarrow> bool" where
  "py_truthy VNone = False"
| "py_truthy (VStr s) = (s \<noteq> [])"
| "py_truthy (VList xs) = (xs \<noteq> [])"

text \<open>\<^verbatim>\<open>x[0]\<close>: the first character of a string (a string of length one), the
  first element of a list.\<close>

fun py_index0 :: "pyval \<Rightarrow> error + pyval" where
  "py_index0 VNone = Inl TypeError"
| "py_index0 (VStr []) = Inl IndexError"
| "py_index0 (VStr (c # cs)) = Inr (VStr [c])"
| "py_index0 (VList []) = Inl IndexError"
| "py_index0 (VList (x # xs)) = Inr x"

text \<open>\<^verbatim>\<open>x += y\<close> on the values the source applies it to: strings concatenate, a
  list is extended by a list, or by the characters of a string.\<close>

fun py_iadd :: "pyval \<Rightarrow> pyval \<Rightarrow> error + pyval" where
  "py_iadd (VStr a) (VStr b) = Inr (VStr (a @ b))"
| "py_iadd (VList a) (VList b) = Inr (VList (a @ b))"
| "py_iadd (VList a) (VStr b) = Inr (VList (a @ map (\<lambda>c. VStr [c]) b))"
| "py_iadd x y = Inl TypeError"

text \<open>A value used where the source needs a string (concatenation, \<^verbatim>\<open>re.sub\<close>).\<close>

fun as_str :: "pyval \<Rightarrow> error + string" where
  "as_str (VStr s) = Inr s"
| "as_str v = Inl TypeError"

subsection \<open>Characters and strings\<close>

definition ord :: "char \<Rightarrow> nat" where
  "ord c = of_char c"

definition is_upper :: "char \<Rightarrow> bool" where
  "is_upper c = (65 \<le> ord c \<and> ord c \<le> 90)"

definition is_lower :: "char \<Rightarrow> bool" where
  "is_lower c = (97 \<le> ord c \<and> ord c \<le> 122)"

definition is_digit :: "char \<Rightarrow> bool" where
  "is_digit c = (48 \<le> ord c \<and> ord c \<le> 57)"

definition is_letter :: "char \<Rightarrow> bool" where
  "is_letter c = (is_upper c \<or> is_lower c)"

text \<open>The class \<^verbatim>\<open>\w\<close>: letters, digits and the underscore.\<close>

definition is_word :: "char \<Rightarrow> bool" where
  "is_word c = (is_letter c \<or> is_digit c \<or> ord c = 95)"

definition lower_char :: "char \<Rightarrow> char" where
  "lower_char c = (if is_upper c then char_of (ord c + 32) else c)"

definition upper_char :: "char \<Rightarrow> char" where
  "upper_char c = (if is_lower c then char_of (ord c - 32) else c)"

definition py_lower :: "string \<Rightarrow> string" where
  "py_lower s = map lower_char s"

text \<open>\<^verbatim>\<open>str.title\<close>: a letter is upper-cased after an uncased character and
  lower-cased after a cased one.\<close>

fun title_from :: "bool \<Rightarrow> string \<Rightarrow> string" where
  "title_from prev [] = []"
| "title_from prev (c # cs) =
     (if is_lower c then (if prev then c else upper_char c) # title_from True cs
      else if is_upper c then (if prev then lower_char c else c) # title_from True cs
      else c # title_from False cs)"

definition py_title :: "string \<Rightarrow> string" where
  "py_title s = title_from False s"

definition space :: char where
  "space = CHR 0x20"

definition newline :: char where
  "newline = CHR 0x0A"

definition backslash :: char where
  "backslash = CHR 0x5C"

definition dquote :: char where
  "dquote = CHR 0x22"

definition tab :: char where
  "tab = CHR 0x09"

definition starts_with :: "string \<Rightarrow> string \<Rightarrow> bool" where
  "starts_with p s = (take (length p) s = p)"

text \<open>\<^verbatim>\<open>s.find(p)\<close>: the lowest index at which \<open>p\<close> occurs in \<open>s\<close>, or -1.\<close>

fun py_find :: "string \<Rightarrow> string \<Rightarrow> int" where
  "py_find [] p = (if p = [] then 0 else -1)"
| "py_find (c # cs) p =
     (if starts_with p (c # cs) then 0
      else (let r = py_find cs p in if r < 0 then -1 else r + 1))"

text \<open>\<^verbatim>\<open>s.split('-')\<close>: the pieces between dashes, at least one.\<close>

fun split_dash :: "string \<Rightarrow> string list" where
  "split_dash [] = [[]]"
| "split_dash (c # cs) =
     (case split_dash cs of
        [] \<Rightarrow> [[c]]
      | p # ps \<Rightarrow> (if c = CHR ''-'' then [] # p # ps else (c # p) # ps))"

text \<open>\<^verbatim>\<open>sep.join(xs)\<close>.\<close>

fun py_join :: "string \<Rightarrow> string list \<Rightarrow> string" where
  "py_join sep [] = []"
| "py_join sep [x] = x"
| "py_join sep (x # y # ys) = x @ sep @ py_join sep (y # ys)"

subsection \<open>The regular expressions of the source\<close>

text \<open>
  \<^verbatim>\<open>re.sub('[...].*', '', s)\<close> for a character class \<open>cls\<close>: every match starts
  at a character of the class and runs to the end of its line, since \<^verbatim>\<open>.\<close> stops
  before a newline. The flag says that the scan is inside a match.
\<close>

fun sub_class_dotstar :: "(char \<Rightarrow> bool) \<Rightarrow> bool \<Rightarrow> string \<Rightarrow> string" where
  "sub_class_dotstar cls inside [] = []"
| "sub_class_dotstar cls inside (c # cs) =
     (if inside \<and> c \<noteq> newline then sub_class_dotstar cls True cs
      else if cls c then sub_class_dotstar cls True cs
      else c # sub_class_dotstar cls False cs)"

text \<open>\<^verbatim>\<open>re.sub(' .*', '', s)\<close>\<close>

definition sub_space_dotstar :: "string \<Rightarrow> string" where
  "sub_space_dotstar s = sub_class_dotstar (\<lambda>c. c = space) False s"

text \<open>\<^verbatim>\<open>re.sub('#.*', '', s)\<close>\<close>

definition sub_hash_dotstar :: "string \<Rightarrow> string" where
  "sub_hash_dotstar s = sub_class_dotstar (\<lambda>c. c = CHR ''#'') False s"

text \<open>\<^verbatim>\<open>re.sub('[ ,;:\.!?].*', '', s)\<close>\<close>

definition sub_punct_dotstar :: "string \<Rightarrow> string" where
  "sub_punct_dotstar s = sub_class_dotstar (\<lambda>c. c \<in> set '' ,;:.!?'') False s"

text \<open>\<^verbatim>\<open>re.sub('\W', '', s)\<close>\<close>

definition sub_nonword :: "string \<Rightarrow> string" where
  "sub_nonword s = filter is_word s"

text \<open>\<^verbatim>\<open>re.sub(' ', '', s)\<close>\<close>

definition sub_spaces :: "string \<Rightarrow> string" where
  "sub_spaces s = filter (\<lambda>c. c \<noteq> space) s"

text \<open>\<^verbatim>\<open>re.sub('^[a-z] ', '', s)\<close>\<close>

fun sub_leading_letter :: "string \<Rightarrow> string" where
  "sub_leading_letter (c # b # cs) = (if is_lower c \<and> b = space then cs else c # b # cs)"
| "sub_leading_letter s = s"

text \<open>\<^verbatim>\<open>re.sub('^[0-9][0-9]', '', s)\<close>\<close>

fun sub_leading_digits :: "string \<Rightarrow> string" where
  "sub_leading_digits (c # b # cs) = (if is_digit c \<and> is_digit b then cs else c # b # cs)"
| "sub_leading_digits s = s"

text \<open>\<^verbatim>\<open>re.sub('^, ', '', s)\<close>\<close>

definition sub_leading_comma :: "string \<Rightarrow> string" where
  "sub_leading_comma s = (if starts_with '', '' s then drop 2 s else s)"

text \<open>
  \<^verbatim>\<open>re.sub('^(a1|a2|...)', '', s)\<close>: the first alternative that matches at the
  start of the string is removed.
\<close>

fun sub_leading_alternative :: "string list \<Rightarrow> string \<Rightarrow> string" where
  "sub_leading_alternative [] s = s"
| "sub_leading_alternative (a # as) s =
     (if starts_with a s then drop (length a) s else sub_leading_alternative as s)"

text \<open>
  \<^verbatim>\<open>re.sub(pat, rep, s)\<close> for a pattern without special characters and an
  expanded replacement: the occurrences of \<open>pat\<close> are replaced from left to right,
  without overlap. The counter is the number of characters of the current match
  still to be skipped.
\<close>

fun replace_from :: "string \<Rightarrow> string \<Rightarrow> nat \<Rightarrow> string \<Rightarrow> string" where
  "replace_from pat rep n [] = []"
| "replace_from pat rep (Suc n) (c # cs) = replace_from pat rep n cs"
| "replace_from pat rep 0 (c # cs) =
     (if starts_with pat (c # cs) then rep @ replace_from pat rep (length pat - 1) cs
      else c # replace_from pat rep 0 cs)"

definition replace_all :: "string \<Rightarrow> string \<Rightarrow> string \<Rightarrow> string" where
  "replace_all pat rep s = replace_from pat rep 0 s"

text \<open>
  The replacement argument of \<^verbatim>\<open>re.sub\<close> is a template: a backslash starts an
  escape. \<^verbatim>\<open>\a \b \f \n \r \t \v \\\<close> stand for one character, a backslash
  before any other ASCII letter or at the end is an error of \<^verbatim>\<open>re\<close>, and a
  backslash before a character that is neither a letter nor a digit stays with that
  character. Group references (\<^verbatim>\<open>\g\<close> and a backslash before a digit) are
  outside the model. The template is parsed before any match is looked for.
\<close>

definition escape_char :: "char \<Rightarrow> error + string" where
  "escape_char c =
     (if c = backslash then Inr [backslash]
      else if c = CHR ''a'' then Inr [CHR 0x07]
      else if c = CHR ''b'' then Inr [CHR 0x08]
      else if c = CHR ''f'' then Inr [CHR 0x0C]
      else if c = CHR ''n'' then Inr [CHR 0x0A]
      else if c = CHR ''r'' then Inr [CHR 0x0D]
      else if c = CHR ''t'' then Inr [CHR 0x09]
      else if c = CHR ''v'' then Inr [CHR 0x0B]
      else if c = CHR ''g'' \<or> is_digit c then Inl Unmodelled
      else if is_letter c then Inl ReError
      else Inr [backslash, c])"

fun expand_repl :: "string \<Rightarrow> error + string" where
  "expand_repl [] = Inr []"
| "expand_repl [c] = (if c = backslash then Inl ReError else Inr [c])"
| "expand_repl (c # b # cs) =
     (if c = backslash
      then bind_err (escape_char b) (\<lambda>x. bind_err (expand_repl cs) (\<lambda>r. Inr (x @ r)))
      else bind_err (expand_repl (b # cs)) (\<lambda>r. Inr (c # r)))"

text \<open>\<^verbatim>\<open>re.sub(pat, rep, s)\<close> with the replacement taken as a template.\<close>

definition re_sub :: "string \<Rightarrow> string \<Rightarrow> string \<Rightarrow> error + string" where
  "re_sub pat rep s = bind_err (expand_repl rep) (\<lambda>r. Inr (replace_all pat r s))"

text \<open>\<^verbatim>\<open>str(k)\<close> for an integer.\<close>

fun digits_of :: "nat \<Rightarrow> string" where
  "digits_of n =
     (if n < 10 then [char_of (48 + n)] else digits_of (n div 10) @ [char_of (48 + n mod 10)])"

declare digits_of.simps [simp del]

definition py_str_int :: "int \<Rightarrow> string" where
  "py_str_int i = (if i < 0 then CHR ''-'' # digits_of (nat (- i)) else digits_of (nat i))"

subsection \<open>The database and the object\<close>

text \<open>
  Each component of \<open>database\<close> is the result set of one SELECT of the source, in
  the order the database returns it and before any ORDER BY of the query; the columns
  are those of the SELECT, integers for ids and strings for text, none of them NULL.
  \<open>itemCreators\<close> carries the ordering index as its last column.
\<close>

record database =
  itemData :: "(int \<times> string \<times> string \<times> string) list"
  collectionItems :: "(int \<times> string) list"
  itemCreators :: "(int \<times> string \<times> string \<times> string \<times> int) list"
  itemTypes :: "(int \<times> string) list"
  itemNotes :: "(int \<times> string) list"
  itemTags :: "(int \<times> string) list"
  itemAttachments :: "(string \<times> int \<times> string) list"
  deletedItems :: "int list"

text \<open>What the object reads from outside: the modification time of the file
  \<^verbatim>\<open>self._z\<close> and its content.\<close>

record filesystem =
  getmtime :: int
  zotero_sqlite :: database

type_synonym tdict = "(int, entry) dict"

type_synonym edict = "(string option, (string, entry) dict) dict"

text \<open>
  The attributes \<^verbatim>\<open>_cite\<close>, \<^verbatim>\<open>_w\<close>, \<^verbatim>\<open>_e\<close>, \<^verbatim>\<open>_m\<close> and
  \<^verbatim>\<open>_d\<close> of the object. The key \<^verbatim>\<open>None\<close> of \<^verbatim>\<open>_e\<close> is \<open>None\<close>.
  \<^verbatim>\<open>_t\<close> is rebuilt from nothing by every load and read by nothing else, so it
  is a value inside the load and not a field.
\<close>

record zotero_entries =
  self_cite :: string
  self_w :: string
  self_e :: edict
  self_m :: int
  self_d :: "(string, string option list) dict"

subsection \<open>The load cycle\<close>

text \<open>\<^verbatim>\<open>_add_most_fields\<close>\<close>

definition new_entry :: "string \<Rightarrow> entry" where
  "new_entry item_key =
     [(''zotkey'', VStr item_key), (''collection'', VNone), (''alastnm'', VStr []),
      (''tags'', VList [])]"

fun add_most_fields :: "(int \<times> string \<times> string \<times> string) list \<Rightarrow> tdict \<Rightarrow> tdict" where
  "add_most_fields [] t = t"
| "add_most_fields ((item_id, item_key, field, val) # rows) t =
     add_most_fields rows
       (dict_set t item_id
          (dict_set (case map_of t item_id of None \<Rightarrow> new_entry item_key | Some en \<Rightarrow> en)
             field (VStr val)))"

text \<open>\<^verbatim>\<open>if item_id in self._t: self._t[item_id][k] = v\<close>\<close>

definition set_if_present :: "tdict \<Rightarrow> int \<Rightarrow> string \<Rightarrow> pyval \<Rightarrow> tdict" where
  "set_if_present t item_id k v =
     (case map_of t item_id of
        None \<Rightarrow> t
      | Some en \<Rightarrow> dict_set t item_id (dict_set en k v))"

text \<open>
  \<^verbatim>\<open>_add_collection\<close>. The query orders its rows by
  \<^verbatim>\<open>collectionName != "To Read"\<close> and then by the name: false sorts before
  true, so the rows named "To Read" come first.
\<close>

definition collection_query :: "database \<Rightarrow> (int \<times> string) list" where
  "collection_query db =
     sort_key (\<lambda>r. (snd r \<noteq> ''To Read'', snd r)) (collectionItems db)"

fun add_collection :: "(int \<times> string) list \<Rightarrow> tdict \<Rightarrow> tdict" where
  "add_collection [] t = t"
| "add_collection ((item_id, item_collection) # rows) t =
     add_collection rows (set_if_present t item_id ''collection'' (VStr item_collection))"

text \<open>\<^verbatim>\<open>_add_authors\<close>; the query orders its rows by the ordering index.\<close>

definition creators_query :: "database \<Rightarrow> (int \<times> string \<times> string \<times> string) list" where
  "creators_query db =
     map (\<lambda>(item_id, ctype, lastname, firstname, idx). (item_id, ctype, lastname, firstname))
       (sort_key (\<lambda>(item_id, ctype, lastname, firstname, idx). idx) (itemCreators db))"

definition add_author :: "entry \<Rightarrow> string \<Rightarrow> string \<Rightarrow> string \<Rightarrow> error + entry" where
  "add_author en ctype lastname firstname =
     bind_err
       (if dict_has en ctype
        then bind_err (dict_get en ctype)
               (\<lambda>old. py_iadd old (VList [VList [VStr lastname, VStr firstname]]))
        else Inr (VList [VList [VStr lastname, VStr firstname]]))
       (\<lambda>cr.
          if ctype = ''author''
          then bind_err (dict_get (dict_set en ctype cr) ''alastnm'')
                 (\<lambda>a. bind_err (py_iadd a (VStr ('', '' @ lastname)))
                    (\<lambda>a'. Inr (dict_set (dict_set en ctype cr) ''alastnm'' a')))
          else Inr (dict_set en ctype cr))"

fun add_authors :: "(int \<times> string \<times> string \<times> string) list \<Rightarrow> tdict \<Rightarrow> error + tdict" where
  "add_authors [] t = Inr t"
| "add_authors ((item_id, ctype, lastname, firstname) # rows) t =
     (case map_of t item_id of
        None \<Rightarrow> add_authors rows t
      | Some en \<Rightarrow>
          bind_err (add_author en ctype lastname firstname)
            (\<lambda>en'. add_authors rows (dict_set t item_id en')))"

text \<open>\<^verbatim>\<open>_add_type\<close>\<close>

fun add_type :: "(int \<times> string) list \<Rightarrow> tdict \<Rightarrow> tdict" where
  "add_type [] t = t"
| "add_type ((item_id, item_type) # rows) t =
     add_type rows (set_if_present t item_id ''etype'' (VStr item_type))"

text \<open>\<^verbatim>\<open>_add_note\<close>\<close>

fun add_note :: "(int \<times> string) list \<Rightarrow> tdict \<Rightarrow> tdict" where
  "add_note [] t = t"
| "add_note ((item_id, item_note) # rows) t =
     add_note rows (set_if_present t item_id ''note'' (VStr item_note))"

text \<open>\<^verbatim>\<open>_add_tags\<close>\<close>

fun add_tags :: "(int \<times> string) list \<Rightarrow> tdict \<Rightarrow> error + tdict" where
  "add_tags [] t = Inr t"
| "add_tags ((item_id, item_tag) # rows) t =
     (case map_of t item_id of
        None \<Rightarrow> add_tags rows t
      | Some en \<Rightarrow>
          bind_err (dict_get en ''tags'')
            (\<lambda>old. bind_err (py_iadd old (VList [VStr item_tag]))
               (\<lambda>new. add_tags rows (dict_set t item_id (dict_set en ''tags'' new)))))"

text \<open>\<^verbatim>\<open>_add_attachments\<close>: the only pass that does not test
  \<^verbatim>\<open>item_id in self._t\<close> before it writes.\<close>

fun add_attachments :: "(string \<times> int \<times> string) list \<Rightarrow> tdict \<Rightarrow> error + tdict" where
  "add_attachments [] t = Inr t"
| "add_attachments ((pKey, pId, aPath) # rows) t =
     bind_err (dict_get t pId)
       (\<lambda>en. add_attachments rows
          (dict_set t pId (dict_set en ''attachment'' (VStr (pKey @ '':'' @ aPath)))))"

text \<open>
  \<^verbatim>\<open>_calculate_citekeys\<close>. The pattern of the banned words is
  \<^verbatim>\<open>'^(' + ' |'.join(self._w) + ' )'\<close> and \<^verbatim>\<open>self._w\<close> is a string:
  \<^verbatim>\<open>join\<close> runs over its characters, so each alternative of the pattern is one
  character of \<^verbatim>\<open>self._w\<close> followed by a space (a single space when
  \<^verbatim>\<open>self._w\<close> is empty). The characters of \<^verbatim>\<open>self._w\<close> are taken to be
  plain ones for a regular expression, as in the default list.
\<close>

definition banned_pattern :: "string \<Rightarrow> string" where
  "banned_pattern w = ''^('' @ py_join '' |'' (map (\<lambda>c. [c]) w) @ '' )''"

definition banned_alternatives :: "string \<Rightarrow> string list" where
  "banned_alternatives w = (if w = [] then [[space]] else map (\<lambda>c. [c, space]) w)"

definition entry_year :: "entry \<Rightarrow> error + string" where
  "entry_year en =
     (if dict_has en ''date''
      then bind_err (dict_get en ''date'')
             (\<lambda>v. bind_err (as_str v)
                (\<lambda>s. case split_dash (sub_space_dotstar s) of
                        [] \<Rightarrow> Inl IndexError
                      | y # ys \<Rightarrow> Inr y))
      else Inr [])"

text \<open>\<^verbatim>\<open>x.lower()\<close> exists for strings only.\<close>

fun val_lower :: "pyval \<Rightarrow> error + string" where
  "val_lower (VStr s) = Inr (py_lower s)"
| "val_lower v = Inl AttributeError"

text \<open>The word of the title, \<^verbatim>\<open>titlew\<close>, from the lower-cased title.\<close>

definition title_word :: "string \<Rightarrow> string \<Rightarrow> string" where
  "title_word w low =
     sub_punct_dotstar (sub_leading_letter (sub_leading_alternative (banned_alternatives w) low))"

definition entry_titlew :: "string \<Rightarrow> entry \<Rightarrow> error + (entry \<times> string)" where
  "entry_titlew w en =
     (if dict_has en ''title''
      then bind_err (dict_get en ''title'')
             (\<lambda>v. bind_err (val_lower v) (\<lambda>low. Inr (en, title_word w low)))
      else Inr (dict_set en ''title'' (VStr []), []))"

definition entry_lastname :: "entry \<Rightarrow> error + string" where
  "entry_lastname en =
     (if dict_has en ''author''
      then bind_err (dict_get en ''author'')
             (\<lambda>a. bind_err (py_index0 a) (\<lambda>a0. bind_err (py_index0 a0) as_str))
      else Inr ''No_author'')"

text \<open>Lines 320 to 327: the placeholders of the template are replaced one after the
  other, each in the result of the one before, and the spaces are removed last.\<close>

definition apply_template :: "string \<Rightarrow> string \<Rightarrow> string \<Rightarrow> string \<Rightarrow> error + string" where
  "apply_template cite lastname year titlew =
     bind_err (re_sub ''{author}'' (py_lower lastname) cite) (\<lambda>k1.
     bind_err (re_sub ''{Author}'' (py_title lastname) k1) (\<lambda>k2.
     bind_err (re_sub ''{year}'' (sub_leading_digits year) k2) (\<lambda>k3.
     bind_err (re_sub ''{Year}'' year k3) (\<lambda>k4.
     bind_err (re_sub ''{title}'' (py_lower titlew) k4) (\<lambda>k5.
     bind_err (re_sub ''{Title}'' (py_title titlew) k5) (\<lambda>k6.
     Inr (sub_spaces k6)))))))"

definition calculate_citekey :: "string \<Rightarrow> string \<Rightarrow> entry \<Rightarrow> error + entry" where
  "calculate_citekey cite w en =
     bind_err (entry_year en) (\<lambda>year.
     bind_err (entry_titlew w (dict_set en ''year'' (VStr year))) (\<lambda>(en1, titlew).
     bind_err (entry_lastname en1) (\<lambda>lastname.
     bind_err (apply_template cite (sub_nonword lastname) year (sub_nonword titlew)) (\<lambda>key.
     Inr (dict_set en1 ''citekey'' (VStr key))))))"

fun calculate_citekeys :: "string \<Rightarrow> string \<Rightarrow> tdict \<Rightarrow> error + tdict" where
  "calculate_citekeys cite w [] = Inr []"
| "calculate_citekeys cite w ((k, en) # rest) =
     bind_err (calculate_citekey cite w en)
       (\<lambda>en'. bind_err (calculate_citekeys cite w rest) (\<lambda>rest'. Inr ((k, en') # rest')))"

text \<open>\<^verbatim>\<open>_separate_by_collection\<close>. A dictionary key is \<^verbatim>\<open>None\<close> or a string; a
  list is not hashable.\<close>

fun as_key :: "pyval \<Rightarrow> error + string option" where
  "as_key VNone = Inr None"
| "as_key (VStr s) = Inr (Some s)"
| "as_key (VList xs) = Inl TypeError"

fun separate_by_collection :: "int list \<Rightarrow> tdict \<Rightarrow> edict \<Rightarrow> error + edict" where
  "separate_by_collection dl [] e = Inr e"
| "separate_by_collection dl ((k, en) # rest) e =
     (if k \<in> set dl then separate_by_collection dl rest e
      else bind_err (dict_get en ''etype'') (\<lambda>ty.
        if ty = VStr ''attachment'' then separate_by_collection dl rest e
        else bind_err (dict_get en ''alastnm'') (\<lambda>a.
             bind_err (as_str a) (\<lambda>s.
             bind_err (dict_get (dict_set en ''alastnm'' (VStr (sub_leading_comma s)))
                         ''collection'') (\<lambda>cv.
             bind_err (as_key cv) (\<lambda>c.
               separate_by_collection dl rest
                 (dict_set e c
                    (dict_set (case map_of e c of None \<Rightarrow> [] | Some b \<Rightarrow> b)
                       (py_str_int k)
                       (dict_set en ''alastnm'' (VStr (sub_leading_comma s)))))))))))"

text \<open>The working map \<^verbatim>\<open>self._t\<close> after the merge passes that come before the
  attachments, after all seven of them, and with the citation keys; and the index built
  from it.\<close>

definition merge_before_attachments :: "database \<Rightarrow> error + tdict" where
  "merge_before_attachments db =
     bind_err
       (add_authors (creators_query db)
          (add_collection (collection_query db) (add_most_fields (itemData db) [])))
       (\<lambda>t3. add_tags (itemTags db) (add_note (itemNotes db) (add_type (itemTypes db) t3)))"

definition merge_tables :: "database \<Rightarrow> error + tdict" where
  "merge_tables db =
     bind_err (merge_before_attachments db) (add_attachments (itemAttachments db))"

definition working_map :: "string \<Rightarrow> string \<Rightarrow> database \<Rightarrow> error + tdict" where
  "working_map cite w db = bind_err (merge_tables db) (calculate_citekeys cite w)"

definition build_index :: "string \<Rightarrow> string \<Rightarrow> database \<Rightarrow> error + edict" where
  "build_index cite w db =
     bind_err (working_map cite w db) (\<lambda>t8. separate_by_collection (deletedItems db) t8 [])"

text \<open>\<^verbatim>\<open>_load_zotero_data\<close>: the modification time is recorded and the index is
  replaced by the one built from the file.\<close>

definition load_zotero_data :: "filesystem \<Rightarrow> zotero_entries \<Rightarrow> error + zotero_entries" where
  "load_zotero_data fs st =
     bind_err (build_index (self_cite st) (self_w st) (zotero_sqlite fs))
       (\<lambda>e. Inr (st\<lparr>self_m := getmtime fs, self_e := e\<rparr>))"

text \<open>\<^verbatim>\<open>__init__\<close>, from the two settings of the environment (absent: the defaults).\<close>

definition default_cite :: string where
  "default_cite = ''{Author}_{Year}''"

definition default_w :: string where
  "default_w = ''a an the some from on in to of do with''"

definition init :: "string option \<Rightarrow> string option \<Rightarrow> filesystem \<Rightarrow> error + zotero_entries" where
  "init ZCitationTemplate ZBannedWords fs =
     bind_err
       (load_zotero_data fs
          \<lparr>self_cite = (case ZCitationTemplate of None \<Rightarrow> default_cite | Some c \<Rightarrow> c),
           self_w = (case ZBannedWords of None \<Rightarrow> default_w | Some b \<Rightarrow> b),
           self_e = [], self_m = 0, self_d = []\<rparr>)
       (\<lambda>st. Inr (st\<lparr>self_d := []\<rparr>))"

subsection \<open>SetCollections\<close>

text \<open>The loop over \<^verbatim>\<open>clist\<close>: the binding has been emptied before it starts; a
  known name is appended, an unknown one ends the call with the message.\<close>

fun append_collections ::
  "edict \<Rightarrow> string list \<Rightarrow> string option list \<Rightarrow> string option list \<times> string" where
  "append_collections e [] acc = (acc, [])"
| "append_collections e (c # cs) acc =
     (if dict_has e (Some c) then append_collections e cs (acc @ [Some c])
      else (acc, ''Collection '' @ [dquote] @ c @ [dquote] @ '' not found in Zotero database.''))"

definition SetCollections ::
  "zotero_entries \<Rightarrow> string \<Rightarrow> string list \<Rightarrow> zotero_entries \<times> string" where
  "SetCollections st dn clist =
     (if clist = [[]]
      then (st\<lparr>self_d := dict_set (self_d st) dn (dict_keys (self_e st))\<rparr>, [])
      else (case append_collections (self_e st) clist [] of
              (bound, msg) \<Rightarrow> (st\<lparr>self_d := dict_set (self_d st) dn bound\<rparr>, msg)))"

subsection \<open>GetMatch\<close>

text \<open>\<^verbatim>\<open>_get_compl_line\<close>\<close>

definition get_compl_line :: "entry \<Rightarrow> error + string" where
  "get_compl_line en =
     bind_err (dict_get en ''alastnm'') (\<lambda>a.
     bind_err (dict_get en ''zotkey'') (\<lambda>zv. bind_err (as_str zv) (\<lambda>zotkey.
     bind_err (dict_get en ''citekey'') (\<lambda>cv. bind_err (as_str cv) (\<lambda>citekey.
     bind_err (if a = VStr [] then Inr [space] else as_str a) (\<lambda>names.
     bind_err (dict_get en ''year'') (\<lambda>yv. bind_err (as_str yv) (\<lambda>year.
     bind_err (dict_get en ''title'') (\<lambda>tv. bind_err (as_str tv) (\<lambda>title.
       Inr (zotkey @ ''#'' @ citekey @ [tab] @ names @ [tab] @ ''('' @ year @ '') '' @ title)
     ))))))))))"

text \<open>\<^verbatim>\<open>e[k].lower().find(ptrn)\<close>\<close>

definition find_in :: "entry \<Rightarrow> string \<Rightarrow> string \<Rightarrow> error + int" where
  "find_in en k ptrn =
     bind_err (dict_get en k) (\<lambda>v. bind_err (val_lower v) (\<lambda>s. Inr (py_find s ptrn)))"

text \<open>\<^verbatim>\<open>e['alastnm'] and e['alastnm'][0][0].lower().find(ptrn)\<close>: \<open>None\<close> when
  \<^verbatim>\<open>e['alastnm']\<close> is false, so that neither comparison of the source holds.\<close>

definition find_in_alastnm :: "entry \<Rightarrow> string \<Rightarrow> error + int option" where
  "find_in_alastnm en ptrn =
     bind_err (dict_get en ''alastnm'') (\<lambda>a.
       if \<not> py_truthy a then Inr None
       else bind_err (py_index0 a) (\<lambda>a0.
            bind_err (py_index0 a0) (\<lambda>a00.
            bind_err (val_lower a00) (\<lambda>s. Inr (Some (py_find s ptrn))))))"

record priorities =
  p1 :: "string list"
  p2 :: "string list"
  p3 :: "string list"
  p4 :: "string list"
  p5 :: "string list"
  p6 :: "string list"

text \<open>The body of the inner loop: the chain of \<^verbatim>\<open>if\<close> and \<^verbatim>\<open>elif\<close> of lines
  376 to 387.\<close>

definition match_entry :: "entry \<Rightarrow> string \<Rightarrow> priorities \<Rightarrow> error + priorities" where
  "match_entry en ptrn ps =
     bind_err (find_in en ''citekey'' ptrn) (\<lambda>f1.
     if f1 = 0 then bind_err (get_compl_line en) (\<lambda>l. Inr (ps\<lparr>p1 := p1 ps @ [l]\<rparr>)) else
     bind_err (find_in_alastnm en ptrn) (\<lambda>f2.
     if f2 = Some 0 then bind_err (get_compl_line en) (\<lambda>l. Inr (ps\<lparr>p2 := p2 ps @ [l]\<rparr>)) else
     bind_err (find_in en ''title'' ptrn) (\<lambda>f3.
     if f3 = 0 then bind_err (get_compl_line en) (\<lambda>l. Inr (ps\<lparr>p3 := p3 ps @ [l]\<rparr>)) else
     bind_err (find_in en ''citekey'' ptrn) (\<lambda>f4.
     if 0 < f4 then bind_err (get_compl_line en) (\<lambda>l. Inr (ps\<lparr>p4 := p4 ps @ [l]\<rparr>)) else
     bind_err (find_in_alastnm en ptrn) (\<lambda>f5.
     if (case f5 of None \<Rightarrow> False | Some n \<Rightarrow> 0 < n)
     then bind_err (get_compl_line en) (\<lambda>l. Inr (ps\<lparr>p5 := p5 ps @ [l]\<rparr>)) else
     bind_err (find_in en ''title'' ptrn) (\<lambda>f6.
     if 0 < f6 then bind_err (get_compl_line en) (\<lambda>l. Inr (ps\<lparr>p6 := p6 ps @ [l]\<rparr>))
     else Inr ps))))))"

fun match_entries :: "(string, entry) dict \<Rightarrow> string \<Rightarrow> priorities \<Rightarrow> error + priorities" where
  "match_entries [] ptrn ps = Inr ps"
| "match_entries ((k, en) # rest) ptrn ps =
     bind_err (match_entry en ptrn ps) (match_entries rest ptrn)"

fun match_collections ::
  "edict \<Rightarrow> string option list \<Rightarrow> string \<Rightarrow> priorities \<Rightarrow> error + priorities" where
  "match_collections e [] ptrn ps = Inr ps"
| "match_collections e (c # cs) ptrn ps =
     bind_err (dict_get e c) (\<lambda>bucket.
     bind_err (match_entries bucket ptrn ps) (match_collections e cs ptrn))"

text \<open>The search on the index as it stands: lines 363 to 389.\<close>

definition search_index :: "zotero_entries \<Rightarrow> string \<Rightarrow> string \<Rightarrow> error + string list" where
  "search_index st ptrn dn =
     bind_err (dict_get (self_d st) dn) (\<lambda>collections.
     bind_err
       (match_collections (self_e st)
          (if collections = [] then dict_keys (self_e st) else collections) ptrn
          \<lparr>p1 = [], p2 = [], p3 = [], p4 = [], p5 = [], p6 = []\<rparr>)
       (\<lambda>ps. Inr (p1 ps @ p2 ps @ p3 ps @ p4 ps @ p5 ps @ p6 ps)))"

text \<open>Lines 360 and 361: the test of the modification time.\<close>

definition reload_if_newer :: "filesystem \<Rightarrow> zotero_entries \<Rightarrow> error + zotero_entries" where
  "reload_if_newer fs st = (if self_m st < getmtime fs then load_zotero_data fs st else Inr st)"

definition GetMatch ::
  "filesystem \<Rightarrow> zotero_entries \<Rightarrow> string \<Rightarrow> string \<Rightarrow> error + (zotero_entries \<times> string list)"
  where
  "GetMatch fs st ptrn dn =
     bind_err (reload_if_newer fs st) (\<lambda>st1.
     bind_err (search_index st1 ptrn dn) (\<lambda>resp. Inr (st1, resp)))"

subsection \<open>GetYamlRefs\<close>

text \<open>The tables \<^verbatim>\<open>_zct\<close> and \<^verbatim>\<open>_zcf\<close>.\<close>

definition zct :: "(string \<times> string) list" where
  "zct =
    [(''artwork'', ''graphic''), (''audioRecording'', ''song''),
     (''blogPost'', ''post-weblog''), (''bookSection'', ''chapter''),
     (''case'', ''legal_case''), (''computerProgram'', ''book''),
     (''conferencePaper'', ''paper-conference''), (''dictionaryEntry'', ''entry-dictionary''),
     (''document'', ''report''), (''email'', ''personal_communication''),
     (''encyclopediaArticle'', ''entry-encyclopedia''), (''film'', ''motion_picture''),
     (''forumPost'', ''post''), (''hearing'', ''bill''),
     (''instantMessage'', ''personal_communication''), (''interview'', ''interview''),
     (''journalArticle'', ''article-journal''), (''letter'', ''personal_communication''),
     (''magazineArticle'', ''article-magazine''),
     (''newspaperArticle'', ''article-newspaper''), (''note'', ''manuscript''),
     (''podcast'', ''broadcast''), (''presentation'', ''speech''),
     (''radioBroadcast'', ''broadcast''), (''statute'', ''legislation''),
     (''tvBroadcast'', ''broadcast''), (''videoRecording'', ''motion_picture'')]"

definition zcf :: "(string \<times> string) list" where
  "zcf =
    [(''abstractNote'', ''abstract''), (''accessDate'', ''accessed''),
     (''applicationNumber'', ''call-number''), (''archiveLocation'', ''archive_location''),
     (''artworkMedium'', ''medium''), (''artworkSize'', ''dimensions''),
     (''audioFileType'', ''medium''), (''blogTitle'', ''container-title''),
     (''bookTitle'', ''container-title''), (''callNumber'', ''call-number''),
     (''code'', ''container-title''), (''codeNumber'', ''volume''), (''codePages'', ''page''),
     (''codeVolume'', ''volume''), (''conferenceName'', ''event''), (''court'', ''authority''),
     (''date'', ''issued''), (''dictionaryTitle'', ''container-title''),
     (''distributor'', ''publisher''), (''encyclopediaTitle'', ''container-title''),
     (''extra'', ''note''), (''filingDate'', ''submitted''),
     (''forumTitle'', ''container-title''), (''history'', ''references''),
     (''institution'', ''publisher''), (''interviewMedium'', ''medium''),
     (''issuingAuthority'', ''authority''), (''legalStatus'', ''status''),
     (''legislativeBody'', ''authority''), (''libraryCatalog'', ''source''),
     (''meetingName'', ''event''), (''numPages'', ''number-of-pages''),
     (''numberOfVolumes'', ''number-of-volumes''), (''pages'', ''page''),
     (''place'', ''publisher-place''), (''priorityNumbers'', ''issue''),
     (''proceedingsTitle'', ''container-title''), (''programTitle'', ''container-title''),
     (''programmingLanguage'', ''genre''), (''publicationTitle'', ''container-title''),
     (''reporter'', ''container-title''), (''runningTime'', ''dimensions''),
     (''series'', ''collection-title''), (''seriesNumber'', ''collection-number''),
     (''seriesTitle'', ''collection-title''), (''session'', ''chapter-number''),
     (''shortTitle'', ''title-short''), (''system'', ''medium''), (''thesisType'', ''genre''),
     (''type'', ''genre''), (''university'', ''publisher''), (''url'', ''URL''),
     (''versionNumber'', ''version''), (''websiteTitle'', ''container-title''),
     (''websiteType'', ''genre'')]"

text \<open>Lines 393 and 394. \<^verbatim>\<open>None\<close> is no key of the table; a list is not hashable.\<close>

definition fix_type :: "entry \<Rightarrow> error + entry" where
  "fix_type en =
     bind_err (dict_get en ''etype'') (\<lambda>ty.
       case ty of
         VNone \<Rightarrow> Inr en
       | VList xs \<Rightarrow> Inl TypeError
       | VStr s \<Rightarrow>
           (case map_of zct s of
              None \<Rightarrow> Inr en
            | Some n \<Rightarrow> Inr (dict_set en ''etype'' (VStr n))))"

text \<open>Lines 396 to 398: \<^verbatim>\<open>re.sub('"', '\\"', e[f])\<close> on every value that is a
  string. The template is a backslash and a quote, and stands for itself.\<close>

definition escape_quotes :: "string \<Rightarrow> string" where
  "escape_quotes s = replace_all [dquote] [backslash, dquote] s"

fun escape_val :: "pyval \<Rightarrow> pyval" where
  "escape_val (VStr s) = VStr (escape_quotes s)"
| "escape_val v = v"

definition escape_fields :: "entry \<Rightarrow> entry" where
  "escape_fields en = map (\<lambda>(f, v). (f, escape_val v)) en"

text \<open>Lines 399 to 402: \<^verbatim>\<open>e[self._zcf[f]] = e.pop(f)\<close> for the keys the entry had
  before the loop.\<close>

fun rename_fields :: "string list \<Rightarrow> entry \<Rightarrow> error + entry" where
  "rename_fields [] en = Inr en"
| "rename_fields (f # fs) en =
     (case map_of zcf f of
        None \<Rightarrow> rename_fields fs en
      | Some g \<Rightarrow>
          bind_err (dict_get en f) (\<lambda>v. rename_fields fs (dict_set (dict_pop en f) g v)))"

text \<open>\<^verbatim>\<open>for last, first in e[aa]\<close>: what is iterated, and the unpacking of one
  element into two.\<close>

fun py_iter :: "pyval \<Rightarrow> error + pyval list" where
  "py_iter VNone = Inl TypeError"
| "py_iter (VStr s) = Inr (map (\<lambda>c. VStr [c]) s)"
| "py_iter (VList xs) = Inr xs"

fun unpack2 :: "pyval \<Rightarrow> error + (pyval \<times> pyval)" where
  "unpack2 VNone = Inl TypeError"
| "unpack2 (VStr [a, b]) = Inr (VStr [a], VStr [b])"
| "unpack2 (VStr s) = Inl ValueError"
| "unpack2 (VList [a, b]) = Inr (a, b)"
| "unpack2 (VList xs) = Inl ValueError"

fun creator_lines :: "pyval list \<Rightarrow> error + string" where
  "creator_lines [] = Inr []"
| "creator_lines (x # xs) =
     bind_err (unpack2 x) (\<lambda>(last, first).
     bind_err (as_str last) (\<lambda>l.
     bind_err (as_str first) (\<lambda>f.
     bind_err (creator_lines xs) (\<lambda>r.
       Inr (''  - family: '' @ [dquote] @ l @ [dquote, newline] @
            ''    given: '' @ [dquote] @ f @ [dquote, newline] @ r)))))"

fun role_lines :: "string list \<Rightarrow> entry \<Rightarrow> error + string" where
  "role_lines [] en = Inr []"
| "role_lines (aa # roles) en =
     (if dict_has en aa
      then bind_err (dict_get en aa) (\<lambda>v.
           bind_err (py_iter v) (\<lambda>xs.
           bind_err (creator_lines xs) (\<lambda>ls.
           bind_err (role_lines roles en) (\<lambda>r.
             Inr (''  '' @ aa @ '':'' @ [newline] @ ls @ r)))))
      else role_lines roles en)"

text \<open>Lines 412 to 419.\<close>

definition issued_lines :: "entry \<Rightarrow> error + string" where
  "issued_lines en =
     (if dict_has en ''issued''
      then bind_err (dict_get en ''issued'') (\<lambda>v.
           bind_err (as_str v) (\<lambda>s.
             case split_dash (sub_space_dotstar s) of
               [] \<Rightarrow> Inl IndexError
             | d0 # ds \<Rightarrow>
                 if d0 = ''0000'' then Inr []
                 else bind_err (dict_get en ''year'') (\<lambda>yv.
                      bind_err (as_str yv) (\<lambda>year.
                        case ds of
                          [] \<Rightarrow> Inl IndexError
                        | d1 # ds' \<Rightarrow>
                            (case ds' of
                               [] \<Rightarrow> Inl IndexError
                             | d2 # ds'' \<Rightarrow>
                                 Inr (''  issued:'' @ [newline] @ ''    year: '' @ year @
                                      [newline] @
                                      (if d1 \<noteq> ''00''
                                       then ''    month: '' @ d1 @ [newline] else []) @
                                      (if d2 \<noteq> ''00''
                                       then ''    day: '' @ d2 @ [newline] else [])))))))
      else Inr [])"

text \<open>\<^verbatim>\<open>repr\<close> of a string and \<^verbatim>\<open>str\<close> of a value, for the fields that are
  no strings.\<close>

definition hex_digit :: "nat \<Rightarrow> char" where
  "hex_digit n = (if n < 10 then char_of (48 + n) else char_of (87 + n))"

definition repr_char :: "char \<Rightarrow> char \<Rightarrow> string" where
  "repr_char q c =
     (if c = q \<or> c = backslash then [backslash, c]
      else if c = tab then [backslash, CHR ''t'']
      else if c = newline then [backslash, CHR ''n'']
      else if c = CHR 0x0D then [backslash, CHR ''r'']
      else if ord c < 32 \<or> ord c = 127
        then [backslash, CHR ''x'', hex_digit (ord c div 16), hex_digit (ord c mod 16)]
      else [c])"

definition repr_str :: "string \<Rightarrow> string" where
  "repr_str s =
     (let q = (if CHR 0x27 \<in> set s \<and> dquote \<notin> set s then dquote else CHR 0x27)
      in [q] @ concat (map (repr_char q) s) @ [q])"

fun py_repr :: "pyval \<Rightarrow> string" where
  "py_repr VNone = ''None''"
| "py_repr (VStr s) = repr_str s"
| "py_repr (VList xs) = ''['' @ py_join '', '' (map py_repr xs) @ '']''"

fun py_str :: "pyval \<Rightarrow> string" where
  "py_str (VStr s) = s"
| "py_str v = py_repr v"

definition dont :: "string list" where
  "dont =
     [''etype'', ''issued'', ''abstract'', ''citekey'', ''zotkey'', ''collection'', ''author'',
      ''editor'', ''contributor'', ''translator'', ''alastnm'', ''container-author'', ''tags'',
      ''year'']"

fun field_lines :: "entry \<Rightarrow> string" where
  "field_lines [] = []"
| "field_lines ((f, v) # rest) =
     (if f \<in> set dont then field_lines rest
      else ''  '' @ f @ '': '' @ [dquote] @ py_str v @ [dquote, newline] @ field_lines rest)"

text \<open>\<^verbatim>\<open>_get_yaml_ref\<close> works on the entry it is given: the entry comes back with
  the text.\<close>

definition get_yaml_ref :: "entry \<Rightarrow> string \<Rightarrow> error + (entry \<times> string)" where
  "get_yaml_ref en citekey =
     bind_err (fix_type en) (\<lambda>en1.
     bind_err (rename_fields (dict_keys en1) (escape_fields en1)) (\<lambda>en2.
     bind_err (dict_get en2 ''etype'') (\<lambda>tv.
     bind_err (as_str tv) (\<lambda>ty.
     bind_err
       (role_lines [''author'', ''editor'', ''contributor'', ''translator'', ''container-author'']
          en2) (\<lambda>creators.
     bind_err (issued_lines en2) (\<lambda>issued.
       Inr (en2,
            ''- type: '' @ ty @ [newline] @ ''  id: '' @ citekey @ [newline] @ creators @ issued @
            field_lines en2)))))))"

text \<open>The three nested iterations of \<^verbatim>\<open>GetYamlRefs\<close>, innermost first.\<close>

fun yaml_for_keys :: "string list \<Rightarrow> entry \<Rightarrow> error + (entry \<times> string)" where
  "yaml_for_keys [] en = Inr (en, [])"
| "yaml_for_keys (k # ks) en =
     bind_err (dict_get en ''zotkey'') (\<lambda>zv.
       if VStr (sub_hash_dotstar k) = zv
       then bind_err (get_yaml_ref en k) (\<lambda>(en1, r1).
            bind_err (yaml_for_keys ks en1) (\<lambda>(en2, r2). Inr (en2, r1 @ r2)))
       else yaml_for_keys ks en)"

fun yaml_for_entries ::
  "string list \<Rightarrow> (string, entry) dict \<Rightarrow> error + ((string, entry) dict \<times> string)" where
  "yaml_for_entries keys [] = Inr ([], [])"
| "yaml_for_entries keys ((i, en) # rest) =
     bind_err (yaml_for_keys keys en) (\<lambda>(en', r1).
     bind_err (yaml_for_entries keys rest) (\<lambda>(rest', r2). Inr ((i, en') # rest', r1 @ r2)))"

fun yaml_for_collections :: "string list \<Rightarrow> edict \<Rightarrow> error + (edict \<times> string)" where
  "yaml_for_collections keys [] = Inr ([], [])"
| "yaml_for_collections keys ((c, bucket) # rest) =
     bind_err (yaml_for_entries keys bucket) (\<lambda>(bucket', r1).
     bind_err (yaml_for_collections keys rest) (\<lambda>(rest', r2). Inr ((c, bucket') # rest', r1 @ r2)))"

definition GetYamlRefs ::
  "zotero_entries \<Rightarrow> string list \<Rightarrow> error + (zotero_entries \<times> string)" where
  "GetYamlRefs st keys =
     bind_err (yaml_for_collections keys (self_e st)) (\<lambda>(e', ref).
       Inr (st\<lparr>self_e := e'\<rparr>,
            if ref \<noteq> []
            then ''---'' @ [newline] @ ''references:'' @ [newline] @ ref @ ''...'' @
                 [newline, newline] @ ''dummy text'' @ [newline]
            else []))"

subsection \<open>Statements of the specification\<close>

text \<open>The export as the specification words it: the index is reloaded first when the
  file is newer, as \<open>GetMatch\<close> does. The source has no such step.\<close>

definition GetYamlRefs_reloading ::
  "filesystem \<Rightarrow> zotero_entries \<Rightarrow> string list \<Rightarrow> error + (zotero_entries \<times> string)" where
  "GetYamlRefs_reloading fs st keys =
     bind_err (reload_if_newer fs st) (\<lambda>st1. GetYamlRefs st1 keys)"

text \<open>
  The substitution of the placeholders as a statement about templates. A template is
  read as a sequence of pieces: text without an opening brace, and the six
  placeholders. \<open>piece_text\<close> is what the template holds for a piece and
  \<open>piece_value\<close> what stands in its place in the key: for \<^verbatim>\<open>{year}\<close> the
  year without its first two characters when both are digits, and the year itself
  otherwise.
\<close>

datatype piece =
    Text string | Lower_author | Cap_author | Short_year | Full_year | Lower_title | Cap_title

fun piece_text :: "piece \<Rightarrow> string" where
  "piece_text (Text s) = s"
| "piece_text Lower_author = ''{author}''"
| "piece_text Cap_author = ''{Author}''"
| "piece_text Short_year = ''{year}''"
| "piece_text Full_year = ''{Year}''"
| "piece_text Lower_title = ''{title}''"
| "piece_text Cap_title = ''{Title}''"

definition template_text :: "piece list \<Rightarrow> string" where
  "template_text ps = concat (map piece_text ps)"

fun plain_piece :: "piece \<Rightarrow> bool" where
  "plain_piece (Text s) = (CHR ''{'' \<notin> set s)"
| "plain_piece p = True"

fun piece_value :: "string \<Rightarrow> string \<Rightarrow> string \<Rightarrow> piece \<Rightarrow> string" where
  "piece_value lastname year titlew (Text s) = s"
| "piece_value lastname year titlew Lower_author = py_lower lastname"
| "piece_value lastname year titlew Cap_author = py_title lastname"
| "piece_value lastname year titlew Short_year =
     (if 2 \<le> length year \<and> is_digit (year ! 0) \<and> is_digit (year ! 1) then drop 2 year
      else year)"
| "piece_value lastname year titlew Full_year = year"
| "piece_value lastname year titlew Lower_title = py_lower titlew"
| "piece_value lastname year titlew Cap_title = py_title titlew"

subsection \<open>Properties of entries and of the index\<close>


definition index_all :: "(string option \<Rightarrow> entry \<Rightarrow> bool) \<Rightarrow> edict \<Rightarrow> bool" where
  "index_all P e =
     (\<forall>c bucket k en. (c, bucket) \<in> set e \<longrightarrow> (k, en) \<in> set bucket \<longrightarrow> P c en)"

text \<open>The value under \<^verbatim>\<open>'collection'\<close> of an item of the working map.\<close>

definition coll_of :: "tdict \<Rightarrow> int \<Rightarrow> error + pyval" where
  "coll_of t k = bind_err (dict_get t k) (\<lambda>en. dict_get en ''collection'')"

subsection \<open>Sessions used as concrete inputs\<close>

definition library_db :: database where
  "library_db =
     \<lparr>itemData =
        [(1, ''AAAA1111'', ''title'', ''The rise of systems''),
         (1, ''AAAA1111'', ''date'', ''2020-03-00 March 2020''),
         (2, ''BBBB2222'', ''title'', ''Say '' @ [dquote] @ ''hi'' @ [dquote]),
         (2, ''BBBB2222'', ''date'', ''2019-00-00 2019'')],
      collectionItems = [(1, ''To Read''), (1, ''Systems''), (2, ''To Read'')],
      itemCreators = [(1, ''author'', ''Smith'', ''John'', 0), (2, ''author'', ''Jones'', ''Jo'', 0)],
      itemTypes = [(1, ''journalArticle''), (2, ''book'')],
      itemNotes = [], itemTags = [], itemAttachments = [], deletedItems = []\<rparr>"

definition library_fs :: filesystem where
  "library_fs = \<lparr>getmtime = 10, zotero_sqlite = library_db\<rparr>"

definition library_index :: edict where
  "library_index =
     [(Some ''Systems'',
       [(''1'',
         [(''zotkey'', VStr ''AAAA1111''), (''collection'', VStr ''Systems''),
          (''alastnm'', VStr ''Smith''), (''tags'', VList []),
          (''title'', VStr ''The rise of systems''), (''date'', VStr ''2020-03-00 March 2020''),
          (''author'', VList [VList [VStr ''Smith'', VStr ''John'']]),
          (''etype'', VStr ''journalArticle''), (''year'', VStr ''2020''),
          (''citekey'', VStr ''Smith_2020'')])]),
      (Some ''To Read'',
       [(''2'',
         [(''zotkey'', VStr ''BBBB2222''), (''collection'', VStr ''To Read''),
          (''alastnm'', VStr ''Jones''), (''tags'', VList []),
          (''title'', VStr (''Say '' @ [dquote] @ ''hi'' @ [dquote])),
          (''date'', VStr ''2019-00-00 2019''),
          (''author'', VList [VList [VStr ''Jones'', VStr ''Jo'']]),
          (''etype'', VStr ''book''), (''year'', VStr ''2019''),
          (''citekey'', VStr ''Jones_2019'')])])]"

definition library_st :: zotero_entries where
  "library_st =
     \<lparr>self_cite = default_cite, self_w = default_w, self_e = library_index, self_m = 10,
      self_d = [(''paper.md'', [Some ''Systems'']), (''notes.md'', [Some ''To Read''])]\<rparr>"


definition empty_db :: database where
  "empty_db =
     \<lparr>itemData = [], collectionItems = [], itemCreators = [], itemTypes = [], itemNotes = [],
      itemTags = [], itemAttachments = [], deletedItems = []\<rparr>"

definition stale_st :: zotero_entries where
  "stale_st =
     \<lparr>self_cite = default_cite, self_w = default_w, self_e = [], self_m = 1,
      self_d = [(''paper.md'', [])]\<rparr>"

definition rank_db :: database where
  "rank_db =
     \<lparr>itemData =
        [(1, ''AAAA1111'', ''title'', ''Abc theory''),
         (1, ''AAAA1111'', ''date'', ''2020-00-00 2020''),
         (2, ''BBBB2222'', ''title'', ''Xabc notes''),
         (2, ''BBBB2222'', ''date'', ''2020-00-00 2020''),
         (3, ''CCCC3333'', ''title'', ''Kinetics''),
         (3, ''CCCC3333'', ''date'', ''2019-00-00 2019'')],
      collectionItems = [(1, ''Lab''), (2, ''Lab''), (3, ''Lab'')],
      itemCreators =
        [(1, ''author'', ''Doe'', ''Dana'', 0), (2, ''author'', ''Roe'', ''Rob'', 0),
         (3, ''author'', ''Abcarian'', ''Ann'', 0)],
      itemTypes = [(1, ''book''), (2, ''book''), (3, ''book'')],
      itemNotes = [], itemTags = [], itemAttachments = [], deletedItems = []\<rparr>"

definition rank_fs :: filesystem where
  "rank_fs = \<lparr>getmtime = 100, zotero_sqlite = rank_db\<rparr>"

text \<open>A session: the object is created with the template \<^verbatim>\<open>{Title}_{Year}\<close>, the
  document is bound to the collection and the pattern is searched.\<close>

definition rank_search :: "error + string list" where
  "rank_search =
     bind_err (init (Some ''{Title}_{Year}'') None rank_fs) (\<lambda>st.
     bind_err (GetMatch rank_fs (fst (SetCollections st ''paper.md'' [''Lab''])) ''abc''
                 ''paper.md'') (\<lambda>(st', resp). Inr resp))"

definition search_say :: "zotero_entries \<Rightarrow> error + string list" where
  "search_say st =
     bind_err (GetMatch library_fs st ''say'' ''notes.md'') (\<lambda>(st', resp). Inr resp)"

definition search_say_after_export :: "zotero_entries \<Rightarrow> error + string list" where
  "search_say_after_export st =
     bind_err (GetYamlRefs st [''BBBB2222#Jones_2019'']) (\<lambda>(st1, yaml). search_say st1)"



section \<open>Facts\<close>

subsection \<open>Dictionaries and error propagation\<close>

lemma bind_err_Inr [simp]: "bind_err (Inr v) f = f v"
  by (simp add: bind_err_def)

lemma bind_err_Inl [simp]: "bind_err (Inl er) f = Inl er"
  by (simp add: bind_err_def)

lemma bind_err_eq_Inr: "bind_err x f = Inr y \<longleftrightarrow> (\<exists>v. x = Inr v \<and> f v = Inr y)"
  by (cases x) simp_all

lemma map_of_dict_set: "map_of (dict_set dc k v) k' = (if k' = k then Some v else map_of dc k')"
  by (induction dc) auto

lemma keys_dict_set: "fst ` set (dict_set dc k v) = insert k (fst ` set dc)"
  by (induction dc) auto

lemma dict_has_map_of: "dict_has dc k \<longleftrightarrow> map_of dc k \<noteq> None"
  by (simp add: dict_has_def map_of_eq_None_iff)

lemma dict_get_eq_Inr: "dict_get dc k = Inr v \<longleftrightarrow> map_of dc k = Some v"
  by (simp add: dict_get_def split: option.splits)

lemma map_of_Some_key: "map_of dc k = Some x \<Longrightarrow> k \<in> fst ` set dc"
  by (force dest: map_of_SomeD)


lemma keys_dict_set_present:
  "map_of dc k = Some x \<Longrightarrow> fst ` set (dict_set dc k v) = fst ` set dc"
  by (auto simp: keys_dict_set dest: map_of_Some_key)

lemma keys_set_if_present: "fst ` set (set_if_present t i k v) = fst ` set t"
  by (simp add: set_if_present_def keys_dict_set_present split: option.splits)

lemma keys_add_most_fields:
  "fst ` set (add_most_fields rows t) = fst ` set t \<union> fst ` set rows"
  by (induction rows t rule: add_most_fields.induct) (auto simp: keys_dict_set)








lemma library_index_built: "build_index default_cite default_w library_db = Inr library_index"
  by code_simp

lemma stale_st_reached:
  "bind_err (init None None \<lparr>getmtime = 1, zotero_sqlite = empty_db\<rparr>)
     (\<lambda>st. Inr (fst (SetCollections st ''paper.md'' ['''']))) = Inr stale_st"
  by code_simp

lemma library_st_reached:
  "bind_err (init None None library_fs)
     (\<lambda>st. Inr (fst (SetCollections (fst (SetCollections st ''paper.md'' [''Systems'']))
                       ''notes.md'' [''To Read'']))) = Inr library_st"
  by code_simp

subsection \<open>SetCollections with an unknown name\<close>

lemma append_collections_eq:
  "append_collections e clist acc =
     (acc @ map Some (takeWhile (\<lambda>c. dict_has e (Some c)) clist),
      case dropWhile (\<lambda>c. dict_has e (Some c)) clist of
        [] \<Rightarrow> []
      | c # cs \<Rightarrow> ''Collection '' @ [dquote] @ c @ [dquote] @ '' not found in Zotero database.'')"
  by (induction clist arbitrary: acc) auto

text \<open>What the call leaves as the binding of the document itself: the names of the list
  that come before the first unknown one.\<close>

lemma SetCollections_binding_after_unknown:
  assumes "clist \<noteq> [[]]"
  shows "map_of (self_d (fst (SetCollections st dn clist))) dn =
           Some (map Some (takeWhile (\<lambda>c. dict_has (self_e st) (Some c)) clist))"
  using assms
  by (simp add: SetCollections_def append_collections_eq map_of_dict_set split: prod.splits)

text \<open>
  C3, as the code has it. For every document and every list of names, other than the
  request for all collections (the list holding one empty string), that contains a name
  not in the index, \<open>SetCollections\<close> returns a non-empty message, which names the
  first unknown collection, and leaves the index and the bindings of all other
  documents as they were.
\<close>

theorem SetCollections_unknown:
  assumes "clist \<noteq> [[]]" and "\<not> list_all (\<lambda>c. dict_has (self_e st) (Some c)) clist"
  shows "snd (SetCollections st dn clist) \<noteq> [] \<and>
         snd (SetCollections st dn clist) =
           ''Collection '' @ [dquote] @
           hd (dropWhile (\<lambda>c. dict_has (self_e st) (Some c)) clist) @ [dquote] @
           '' not found in Zotero database.'' \<and>
         self_e (fst (SetCollections st dn clist)) = self_e st \<and>
         (\<forall>dn'. dn' \<noteq> dn \<longrightarrow>
            map_of (self_d (fst (SetCollections st dn clist))) dn' = map_of (self_d st) dn')"
proof -
  from assms(2) have "dropWhile (\<lambda>c. dict_has (self_e st) (Some c)) clist \<noteq> []"
    by (simp add: list_all_iff)
  then obtain c cs where "dropWhile (\<lambda>c. dict_has (self_e st) (Some c)) clist = c # cs"
    by (cases "dropWhile (\<lambda>c. dict_has (self_e st) (Some c)) clist") auto
  with assms(1) show ?thesis
    by (simp add: SetCollections_def append_collections_eq map_of_dict_set)
qed

theorem SetCollections_unknown_witness:
  "[''To Read'', ''Physics''] \<noteq> [[]] \<and>
   \<not> list_all (\<lambda>c. dict_has (self_e library_st) (Some c)) [''To Read'', ''Physics''] \<and>
   snd (SetCollections library_st ''paper.md'' [''To Read'', ''Physics'']) \<noteq> [] \<and>
   snd (SetCollections library_st ''paper.md'' [''To Read'', ''Physics'']) =
     ''Collection '' @ [dquote] @ ''Physics'' @ [dquote] @ '' not found in Zotero database.'' \<and>
   self_e (fst (SetCollections library_st ''paper.md'' [''To Read'', ''Physics''])) =
     self_e library_st \<and>
   map_of (self_d (fst (SetCollections library_st ''paper.md'' [''To Read'', ''Physics''])))
     ''notes.md'' = map_of (self_d library_st) ''notes.md''"
proof -
  have h1: "[''To Read'', ''Physics''] \<noteq> [[]]" by simp
  have h2: "\<not> list_all (\<lambda>c. dict_has (self_e library_st) (Some c)) [''To Read'', ''Physics'']"
    by code_simp
  have d: "hd (dropWhile (\<lambda>c. dict_has (self_e library_st) (Some c)) [''To Read'', ''Physics'']) =
             ''Physics''"
    by code_simp
  from SetCollections_unknown[OF h1 h2, of "''paper.md''"] h1 h2 d show ?thesis by simp
qed

text \<open>
  The claim fails in two ways. The binding of the document itself is not kept: a
  document bound to Systems is bound to "To Read" after the call that names the unknown
  collection Physics. And the list that holds one empty string, a name that is in no
  index built by a load, is the request for all collections: the call returns the
  empty message.
\<close>

theorem SetCollections_keeps_binding_counterexample:
  "map_of (self_d library_st) ''paper.md'' = Some [Some ''Systems''] \<and>
   map_of (self_d (fst (SetCollections library_st ''paper.md'' [''To Read'', ''Physics''])))
     ''paper.md'' = Some [Some ''To Read''] \<and>
   \<not> dict_has (self_e library_st) (Some []) \<and>
   snd (SetCollections library_st ''paper.md'' [[]]) = []"
  by code_simp

subsection \<open>The attachment pass\<close>



subsection \<open>Searching for a document that was never bound\<close>





subsection \<open>When the index is reloaded\<close>

lemma yaml_for_entries_keys:
  "yaml_for_entries keys b = Inr (b', r) \<Longrightarrow> map fst b' = map fst b"
proof (induction b arbitrary: b' r)
  case Nil
  then show ?case by simp
next
  case (Cons p b)
  obtain i en where p: "p = (i, en)" by (cases p)
  from Cons.prems p obtain en' r1 rest' r2 where
    "yaml_for_entries keys b = Inr (rest', r2)" and "b' = (i, en') # rest'"
    by (auto simp: bind_err_eq_Inr)
  with Cons.IH p show ?case by simp
qed

lemma yaml_for_collections_keys:
  "yaml_for_collections keys e = Inr (e', r) \<Longrightarrow>
   map (\<lambda>(c, b). (c, map fst b)) e' = map (\<lambda>(c, b). (c, map fst b)) e"
proof (induction e arbitrary: e' r)
  case Nil
  then show ?case by simp
next
  case (Cons p e)
  obtain c b where p: "p = (c, b)" by (cases p)
  from Cons.prems p obtain b' r1 rest' r2 where
    "yaml_for_entries keys b = Inr (b', r1)"
    "yaml_for_collections keys e = Inr (rest', r2)" and "e' = (c, b') # rest'"
    by (auto simp: bind_err_eq_Inr)
  with Cons.IH p show ?case by (simp add: yaml_for_entries_keys)
qed

text \<open>
  C4, as the code has it. \<open>GetMatch\<close> rebuilds the index from the file at the start
  of the call when the modification time of the file is later than the recorded one,
  and searches the rebuilt index; otherwise it leaves the object as it is.
  \<open>GetYamlRefs\<close> does not look at the file: the recorded time, the collections and
  the entry ids of the index are after the call what they were before it.
\<close>

theorem reload_policy:
  "(GetMatch fs st ptrn dn = Inr (st', resp) \<longrightarrow>
      (if self_m st < getmtime fs
       then build_index (self_cite st) (self_w st) (zotero_sqlite fs) = Inr (self_e st') \<and>
            self_m st' = getmtime fs
       else st' = st) \<and>
      search_index st' ptrn dn = Inr resp) \<and>
   (GetYamlRefs st keys = Inr (st2, txt) \<longrightarrow>
      self_m st2 = self_m st \<and>
      map (\<lambda>(c, b). (c, map fst b)) (self_e st2) = map (\<lambda>(c, b). (c, map fst b)) (self_e st))"
proof (intro conjI impI)
  assume g: "GetMatch fs st ptrn dn = Inr (st', resp)"
  then have r: "reload_if_newer fs st = Inr st'" and s: "search_index st' ptrn dn = Inr resp"
    by (auto simp: GetMatch_def bind_err_eq_Inr)
  from s show "search_index st' ptrn dn = Inr resp" .
  from r show "if self_m st < getmtime fs
       then build_index (self_cite st) (self_w st) (zotero_sqlite fs) = Inr (self_e st') \<and>
            self_m st' = getmtime fs
       else st' = st"
    by (auto simp: reload_if_newer_def load_zotero_data_def bind_err_eq_Inr split: if_splits)
next
  assume y: "GetYamlRefs st keys = Inr (st2, txt)"
  then obtain e' r where e: "yaml_for_collections keys (self_e st) = Inr (e', r)"
    and st2: "st2 = st\<lparr>self_e := e'\<rparr>"
    by (auto simp: GetYamlRefs_def bind_err_eq_Inr)
  from st2 show "self_m st2 = self_m st" by simp
  from yaml_for_collections_keys[OF e] st2
  show "map (\<lambda>(c, b). (c, map fst b)) (self_e st2) = map (\<lambda>(c, b). (c, map fst b)) (self_e st)"
    by simp
qed


theorem reload_policy_witness:
  "GetMatch library_fs stale_st ''smith'' ''paper.md'' =
     Inr (stale_st\<lparr>self_m := 10, self_e := library_index\<rparr>,
          [''AAAA1111#Smith_2020'' @ [tab] @ ''Smith'' @ [tab] @ ''(2020) The rise of systems'']) \<and>
   self_m stale_st < getmtime library_fs \<and>
   build_index (self_cite stale_st) (self_w stale_st) (zotero_sqlite library_fs) =
     Inr (self_e (stale_st\<lparr>self_m := 10, self_e := library_index\<rparr>)) \<and>
   self_m (stale_st\<lparr>self_m := 10, self_e := library_index\<rparr>) = getmtime library_fs \<and>
   search_index (stale_st\<lparr>self_m := 10, self_e := library_index\<rparr>) ''smith'' ''paper.md'' =
     Inr [''AAAA1111#Smith_2020'' @ [tab] @ ''Smith'' @ [tab] @ ''(2020) The rise of systems''] \<and>
   GetYamlRefs stale_st [''AAAA1111#Smith_2020''] = Inr (stale_st, []) \<and>
   self_m stale_st = self_m stale_st"
proof -
  have g: "GetMatch library_fs stale_st ''smith'' ''paper.md'' =
     Inr (stale_st\<lparr>self_m := 10, self_e := library_index\<rparr>,
          [''AAAA1111#Smith_2020'' @ [tab] @ ''Smith'' @ [tab] @ ''(2020) The rise of systems''])"
    by code_simp
  have y: "GetYamlRefs stale_st [''AAAA1111#Smith_2020''] = Inr (stale_st, [])"
    by code_simp
  have lt: "self_m stale_st < getmtime library_fs" by code_simp
  from reload_policy[of library_fs stale_st "''smith''" "''paper.md''"
      "stale_st\<lparr>self_m := 10, self_e := library_index\<rparr>"
      "[''AAAA1111#Smith_2020'' @ [tab] @ ''Smith'' @ [tab] @ ''(2020) The rise of systems'']"
      "[''AAAA1111#Smith_2020'']" stale_st "[]"] g y lt
  show ?thesis by simp
qed

text \<open>An export from a stale index differs from an export that reloads first.\<close>

theorem GetYamlRefs_reload_counterexample:
  "self_m stale_st < getmtime library_fs \<and>
   GetYamlRefs stale_st [''AAAA1111#Smith_2020''] = Inr (stale_st, []) \<and>
   GetYamlRefs_reloading library_fs stale_st [''AAAA1111#Smith_2020''] \<noteq>
     GetYamlRefs stale_st [''AAAA1111#Smith_2020'']"
  by code_simp

subsection \<open>The author tier of the search\<close>

text \<open>The test on the authors looks at \<^verbatim>\<open>e['alastnm'][0][0]\<close>, the first
  character of the string: a pattern of two or more characters is never found in it,
  and no pattern is found in it at a position after the first.\<close>

lemma py_find_single: "py_find [c] p \<le> 0 \<and> (py_find [c] p = 0 \<longrightarrow> length p \<le> 1)"
  by (cases p) (auto simp: starts_with_def Let_def)

lemma alastnm_only_first_char:
  assumes "dict_get en ''alastnm'' = Inr (VStr s)" and "find_in_alastnm en ptrn = Inr (Some n)"
  shows "n \<le> 0 \<and> (n = 0 \<longrightarrow> length ptrn \<le> 1)"
proof (cases s)
  case Nil
  with assms show ?thesis by (simp add: find_in_alastnm_def)
next
  case (Cons c cs)
  with assms have "n = py_find (py_lower [c]) ptrn" by (simp add: find_in_alastnm_def)
  then show ?thesis using py_find_single[of "lower_char c" ptrn] by (simp add: py_lower_def)
qed

text \<open>
  C1 says that an entry whose author string starts with the pattern is in the second
  bucket. In the session \<open>rank_search\<close> the entry of Abcarian, with the citation
  key Kinetics_2019, is in no bucket: the search for abc returns the entry whose key
  starts with the pattern and the entry whose key contains it, and nothing else.
\<close>

theorem GetMatch_misses_author_prefix:
  "rank_search =
     Inr [''AAAA1111#Abc_2020'' @ [tab] @ ''Doe'' @ [tab] @ ''(2020) Abc theory'',
          ''BBBB2222#Xabc_2020'' @ [tab] @ ''Roe'' @ [tab] @ ''(2020) Xabc notes'']"
  by code_simp

subsection \<open>The export rewrites the cached entries\<close>

text \<open>
  C2 says that a search after an export returns the lines of the same search before
  it. \<open>get_yaml_ref\<close> escapes the quotes of the entry it is given, and that entry is
  the one of the index: after the export of the entry the search returns its title
  with a backslash before each quote.
\<close>

theorem GetYamlRefs_changes_search:
  "search_say library_st =
     Inr [''BBBB2222#Jones_2019'' @ [tab] @ ''Jones'' @ [tab] @ ''(2019) Say '' @
          [dquote] @ ''hi'' @ [dquote]] \<and>
   search_say_after_export library_st =
     Inr [''BBBB2222#Jones_2019'' @ [tab] @ ''Jones'' @ [tab] @ ''(2019) Say '' @
          [backslash, dquote] @ ''hi'' @ [backslash, dquote]]"
  by code_simp

subsection \<open>The word of the title\<close>

lemma sub_leading_alternative_map:
  "sub_leading_alternative (map (\<lambda>c. [c, space]) w) s =
     (if 2 \<le> length s \<and> s ! 0 \<in> set w \<and> s ! 1 = space then drop 2 s else s)"
proof (induction w)
  case Nil
  then show ?case by simp
next
  case (Cons a w)
  show ?case
  proof (cases s)
    case Nil
    with Cons show ?thesis by (simp add: starts_with_def)
  next
    case s1: (Cons x xs)
    show ?thesis
    proof (cases xs)
      case Nil
      with Cons s1 show ?thesis by (simp add: starts_with_def)
    next
      case (Cons y ys)
      with Cons.IH s1 show ?thesis by (auto simp: starts_with_def)
    qed
  qed
qed

text \<open>With a list that is not empty, the pattern of the banned words removes one
  leading character of the list when a space follows it, and no word.\<close>

lemma banned_words_strip_one_character:
  "w \<noteq> [] \<Longrightarrow>
   sub_leading_alternative (banned_alternatives w) s =
     (if 2 \<le> length s \<and> s ! 0 \<in> set w \<and> s ! 1 = space then drop 2 s else s)"
  by (simp add: banned_alternatives_def sub_leading_alternative_map)

text \<open>The pattern that the source builds from the default list.\<close>

lemma banned_pattern_default:
  "banned_pattern default_w =
     ''^(a |  |a |n |  |t |h |e |  |s |o |m |e |  |f |r |o |m |  |o |n |  |i |n |  |t |o |  |o |f |  |d |o |  |w |i |t |h )''"
  by code_simp

text \<open>
  C5 says that a leading banned word is removed, so that a title beginning with
  "The rise" has the word rise. The source joins the characters of the list and not
  its words: the alternatives of its pattern are single characters followed by a
  space, the title keeps its first word, and the word of the title is the.
\<close>

theorem title_word_keeps_banned_word:
  "banned_alternatives default_w =
     [''a '', ''  '', ''a '', ''n '', ''  '', ''t '', ''h '', ''e '', ''  '', ''s '', ''o '',
      ''m '', ''e '', ''  '', ''f '', ''r '', ''o '', ''m '', ''  '', ''o '', ''n '', ''  '',
      ''i '', ''n '', ''  '', ''t '', ''o '', ''  '', ''o '', ''f '', ''  '', ''d '', ''o '',
      ''  '', ''w '', ''i '', ''t '', ''h ''] \<and>
   title_word default_w (py_lower ''The rise of systems'') = ''the'' \<and>
   bind_err (calculate_citekey ''{Author}_{title}'' default_w
               [(''title'', VStr ''The rise of systems'')])
     (\<lambda>en. dict_get en ''citekey'') = Inr (VStr ''No_Author_the'')"
  by code_simp

subsection \<open>The placeholder of the short year\<close>

lemma set_sub_leading_digits: "set (sub_leading_digits y) \<subseteq> set y"
  by (induction y rule: sub_leading_digits.induct) auto

lemma sub_leading_digits_eq:
  "sub_leading_digits y =
     (if 2 \<le> length y \<and> is_digit (y ! 0) \<and> is_digit (y ! 1) then drop 2 y else y)"
  by (induction y rule: sub_leading_digits.induct) auto

lemma expand_repl_plain: "backslash \<notin> set s \<Longrightarrow> expand_repl s = Inr s"
  by (induction s rule: expand_repl.induct) auto

lemma re_sub_plain: "backslash \<notin> set rep \<Longrightarrow> re_sub pat rep s = Inr (replace_all pat rep s)"
  by (simp add: re_sub_def expand_repl_plain)

lemma starts_with_Cons: "starts_with (p # ps) (c # cs) \<longleftrightarrow> p = c \<and> starts_with ps cs"
  by (auto simp: starts_with_def)

lemma replace_from_pass:
  "c0 \<notin> set s \<Longrightarrow>
   replace_from (c0 # p) rep 0 (s @ rest) = s @ replace_from (c0 # p) rep 0 rest"
  by (induction s) (auto simp: starts_with_Cons)

lemma replace_from_skip:
  "replace_from pat rep (length xs) (xs @ rest) = replace_from pat rep 0 rest"
  by (induction xs) auto

lemma starts_with_self: "starts_with p (p @ rest)"
  by (simp add: starts_with_def)

lemma replace_all_pass:
  "c0 \<notin> set s \<Longrightarrow> replace_all (c0 # p) rep (s @ rest) = s @ replace_all (c0 # p) rep rest"
  by (simp add: replace_all_def replace_from_pass)

lemma replace_all_hit:
  "replace_all (c # p) rep ((c # p) @ rest) = rep @ replace_all (c # p) rep rest"
  using starts_with_self[of "c # p" rest] replace_from_skip[of "c # p" rep p rest]
  by (simp add: replace_all_def)

lemma replace_all_other:
  assumes "b \<noteq> a" and "c0 \<notin> set (b # qr)"
  shows "replace_all (c0 # a # pr) rep ((c0 # b # qr) @ rest) =
           (c0 # b # qr) @ replace_all (c0 # a # pr) rep rest"
proof -
  have "replace_all (c0 # a # pr) rep ((c0 # b # qr) @ rest) =
          c0 # replace_all (c0 # a # pr) rep ((b # qr) @ rest)"
    using assms(1) by (simp add: replace_all_def starts_with_Cons)
  also have "replace_all (c0 # a # pr) rep ((b # qr) @ rest) =
          (b # qr) @ replace_all (c0 # a # pr) rep rest"
    using assms(2) by (rule replace_all_pass)
  finally show ?thesis by simp
qed

lemma replace_all_pieces:
  assumes pat: "f q = c0 # a # pr"
    and others: "\<And>p. p \<in> set ps \<Longrightarrow> p \<noteq> q \<Longrightarrow>
        c0 \<notin> set (f p) \<or> (\<exists>b qr. f p = c0 # b # qr \<and> b \<noteq> a \<and> c0 \<notin> set (b # qr))"
  shows "replace_all (c0 # a # pr) rep (concat (map f ps)) = concat (map (f(q := rep)) ps)"
  using others
proof (induction ps)
  case Nil
  show ?case by (simp add: replace_all_def)
next
  case (Cons p ps)
  have IH: "replace_all (c0 # a # pr) rep (concat (map f ps)) = concat (map (f(q := rep)) ps)"
    by (rule Cons.IH) (rule Cons.prems, simp_all)
  show ?case
  proof (cases "p = q")
    case True
    with pat IH replace_all_hit[of c0 "a # pr" rep "concat (map f ps)"] show ?thesis
      by (simp add: fun_upd_def)
  next
    case False
    from Cons.prems[of p] False consider "c0 \<notin> set (f p)" |
      b qr where "f p = c0 # b # qr" "b \<noteq> a" "c0 \<notin> set (b # qr)"
      by auto
    then show ?thesis
    proof cases
      case 1
      with IH False replace_all_pass[of c0 "f p" "a # pr" rep "concat (map f ps)"]
      show ?thesis by (simp add: fun_upd_def)
    next
      case 2
      with IH False replace_all_other[of b a c0 qr pr rep "concat (map f ps)"]
      show ?thesis by (simp add: fun_upd_def)
    qed
  qed
qed

lemma ord_char_of: "n < 256 \<Longrightarrow> ord (char_of n) = n"
  by (simp add: ord_def)

lemma is_word_lower_char: "is_word c \<Longrightarrow> is_word (lower_char c)"
  by (auto simp: lower_char_def is_word_def is_letter_def is_upper_def is_lower_def ord_char_of)

lemma is_word_upper_char: "is_word c \<Longrightarrow> is_word (upper_char c)"
  by (auto simp: upper_char_def is_word_def is_letter_def is_upper_def is_lower_def ord_char_of)

lemma py_lower_word: "list_all is_word s \<Longrightarrow> list_all is_word (py_lower s)"
  by (simp add: py_lower_def list_all_iff is_word_lower_char)

lemma title_from_word: "list_all is_word s \<Longrightarrow> list_all is_word (title_from prev s)"
  by (induction prev s rule: title_from.induct)
    (auto simp: is_word_lower_char is_word_upper_char)

lemma py_title_word: "list_all is_word s \<Longrightarrow> list_all is_word (py_title s)"
  by (simp add: py_title_def title_from_word)

lemma sub_nonword_word: "list_all is_word (sub_nonword s)"
  by (simp add: sub_nonword_def list_all_iff)

lemma not_word_backslash: "\<not> is_word backslash"
  by (simp add: is_word_def is_letter_def is_upper_def is_lower_def is_digit_def ord_def
      backslash_def)

lemma not_word_brace: "\<not> is_word (CHR ''{'')"
  by (simp add: is_word_def is_letter_def is_upper_def is_lower_def is_digit_def ord_def)

lemma word_no_backslash: "list_all is_word s \<Longrightarrow> backslash \<notin> set s"
  using not_word_backslash by (auto simp: list_all_iff)

lemma word_no_brace: "list_all is_word s \<Longrightarrow> CHR ''{'' \<notin> set s"
  using not_word_brace by (auto simp: list_all_iff)

text \<open>
  C6, as the code has it. Take a template in which every opening brace begins one of
  the six placeholders, and a year without backslash and opening brace. The key is
  the template with each placeholder replaced by its value and the spaces removed,
  and the value of \<^verbatim>\<open>{year}\<close> is the year without its first two characters
  when both are digits, whatever the length of the year, and the year unchanged
  otherwise.
\<close>

theorem year_placeholder:
  assumes y1: "backslash \<notin> set y" and y2: "CHR ''{'' \<notin> set y"
    and ps: "list_all plain_piece ps"
  shows "apply_template (template_text ps) (sub_nonword l) y (sub_nonword tw) =
           Inr (sub_spaces (concat (map (piece_value (sub_nonword l) y (sub_nonword tw)) ps)))"
proof -
  let ?l = "sub_nonword l" and ?tw = "sub_nonword tw"
  let ?a = "py_lower ?l" and ?A = "py_title ?l" and ?t = "py_lower ?tw" and ?T = "py_title ?tw"
  let ?y = "sub_leading_digits y"
  have wa: "list_all is_word ?a" and wA: "list_all is_word ?A"
    by (simp_all add: py_lower_word py_title_word sub_nonword_word)
  have wt: "list_all is_word ?t" and wT: "list_all is_word ?T"
    by (simp_all add: py_lower_word py_title_word sub_nonword_word)
  have bsa: "backslash \<notin> set ?a" and bsA: "backslash \<notin> set ?A"
    using wa wA by (simp_all add: word_no_backslash)
  have bst: "backslash \<notin> set ?t" and bsT: "backslash \<notin> set ?T"
    using wt wT by (simp_all add: word_no_backslash)
  have bsy: "backslash \<notin> set ?y" using y1 set_sub_leading_digits[of y] by blast
  have bra: "CHR ''{'' \<notin> set ?a" and brA: "CHR ''{'' \<notin> set ?A"
    using wa wA by (simp_all add: word_no_brace)
  have brt: "CHR ''{'' \<notin> set ?t" using wt by (simp add: word_no_brace)
  have bry: "CHR ''{'' \<notin> set ?y" using y2 set_sub_leading_digits[of y] by blast
  have lit: "CHR ''{'' \<notin> set s" if "Text s \<in> set ps" for s
    using ps that by (auto simp: list_all_iff)
  let ?f1 = "piece_text(Lower_author := ?a)"
  let ?f2 = "?f1(Cap_author := ?A)"
  let ?f3 = "?f2(Short_year := ?y)"
  let ?f4 = "?f3(Full_year := y)"
  let ?f5 = "?f4(Lower_title := ?t)"
  let ?f6 = "?f5(Cap_title := ?T)"
  have s1: "replace_all ''{author}'' ?a (concat (map piece_text ps)) = concat (map ?f1 ps)"
  proof (rule replace_all_pieces)
    show "(piece_text) Lower_author = ''{author}''" by simp
    fix p
    assume p: "p \<in> set ps" "p \<noteq> Lower_author"
    show "CHR ''{'' \<notin> set ((piece_text) p) \<or>
      (\<exists>b qr. (piece_text) p = CHR ''{'' # b # qr \<and> b \<noteq> CHR ''a'' \<and> CHR ''{'' \<notin> set (b # qr))"
      by (insert p lit, cases p, auto)
  qed
  have s2: "replace_all ''{Author}'' ?A (concat (map ?f1 ps)) = concat (map ?f2 ps)"
  proof (rule replace_all_pieces)
    show "(?f1) Cap_author = ''{Author}''" by simp
    fix p
    assume p: "p \<in> set ps" "p \<noteq> Cap_author"
    show "CHR ''{'' \<notin> set ((?f1) p) \<or>
      (\<exists>b qr. (?f1) p = CHR ''{'' # b # qr \<and> b \<noteq> CHR ''A'' \<and> CHR ''{'' \<notin> set (b # qr))"
      by (insert p lit bra, cases p, auto)
  qed
  have s3: "replace_all ''{year}'' ?y (concat (map ?f2 ps)) = concat (map ?f3 ps)"
  proof (rule replace_all_pieces)
    show "(?f2) Short_year = ''{year}''" by simp
    fix p
    assume p: "p \<in> set ps" "p \<noteq> Short_year"
    show "CHR ''{'' \<notin> set ((?f2) p) \<or>
      (\<exists>b qr. (?f2) p = CHR ''{'' # b # qr \<and> b \<noteq> CHR ''y'' \<and> CHR ''{'' \<notin> set (b # qr))"
      by (insert p lit bra brA, cases p, auto)
  qed
  have s4: "replace_all ''{Year}'' y (concat (map ?f3 ps)) = concat (map ?f4 ps)"
  proof (rule replace_all_pieces)
    show "(?f3) Full_year = ''{Year}''" by simp
    fix p
    assume p: "p \<in> set ps" "p \<noteq> Full_year"
    show "CHR ''{'' \<notin> set ((?f3) p) \<or>
      (\<exists>b qr. (?f3) p = CHR ''{'' # b # qr \<and> b \<noteq> CHR ''Y'' \<and> CHR ''{'' \<notin> set (b # qr))"
      by (insert p lit bra brA bry, cases p, auto)
  qed
  have s5: "replace_all ''{title}'' ?t (concat (map ?f4 ps)) = concat (map ?f5 ps)"
  proof (rule replace_all_pieces)
    show "(?f4) Lower_title = ''{title}''" by simp
    fix p
    assume p: "p \<in> set ps" "p \<noteq> Lower_title"
    show "CHR ''{'' \<notin> set ((?f4) p) \<or>
      (\<exists>b qr. (?f4) p = CHR ''{'' # b # qr \<and> b \<noteq> CHR ''t'' \<and> CHR ''{'' \<notin> set (b # qr))"
      by (insert p lit bra brA bry y2, cases p, auto)
  qed
  have s6: "replace_all ''{Title}'' ?T (concat (map ?f5 ps)) = concat (map ?f6 ps)"
  proof (rule replace_all_pieces)
    show "(?f5) Cap_title = ''{Title}''" by simp
    fix p
    assume p: "p \<in> set ps" "p \<noteq> Cap_title"
    show "CHR ''{'' \<notin> set ((?f5) p) \<or>
      (\<exists>b qr. (?f5) p = CHR ''{'' # b # qr \<and> b \<noteq> CHR ''T'' \<and> CHR ''{'' \<notin> set (b # qr))"
      by (insert p lit bra brA bry y2 brt, cases p, auto)
  qed
  have fin: "?f6 p = piece_value ?l y ?tw p" for p
    by (cases p) (simp_all add: sub_leading_digits_eq)
  then have "map ?f6 ps = map (piece_value ?l y ?tw) ps" by simp
  with s1 s2 s3 s4 s5 s6 show ?thesis
    by (simp add: apply_template_def re_sub_plain bsa bsA bsy y1 bst bsT template_text_def)
qed

theorem year_placeholder_witness:
  "backslash \<notin> set ''89'' \<and> CHR ''{'' \<notin> set ''89'' \<and>
   list_all plain_piece [Cap_author, Text ''_'', Short_year] \<and>
   template_text [Cap_author, Text ''_'', Short_year] = ''{Author}_{year}'' \<and>
   apply_template (template_text [Cap_author, Text ''_'', Short_year]) (sub_nonword ''Smith'') ''89''
     (sub_nonword ''rise'') =
     Inr (sub_spaces
            (concat
               (map (piece_value (sub_nonword ''Smith'') ''89'' (sub_nonword ''rise''))
                  [Cap_author, Text ''_'', Short_year]))) \<and>
   sub_spaces
     (concat
        (map (piece_value (sub_nonword ''Smith'') ''89'' (sub_nonword ''rise''))
           [Cap_author, Text ''_'', Short_year])) = ''Smith_''"
proof -
  have h1: "backslash \<notin> set ''89''" by code_simp
  have h2: "CHR ''{'' \<notin> set ''89''" by code_simp
  have h3: "list_all plain_piece [Cap_author, Text ''_'', Short_year]" by code_simp
  have t: "template_text [Cap_author, Text ''_'', Short_year] = ''{Author}_{year}''"
    by code_simp
  have v: "sub_spaces
     (concat
        (map (piece_value (sub_nonword ''Smith'') ''89'' (sub_nonword ''rise''))
           [Cap_author, Text ''_'', Short_year])) = ''Smith_''"
    by code_simp
  from year_placeholder[OF h1 h2 h3, of "''Smith''" "''rise''"] h1 h2 h3 t v
  show ?thesis by simp
qed

text \<open>A backslash in the year is read as the start of an escape: the year is then
  not put into the key as it is, and the substitution may fail.\<close>

lemma year_with_backslash:
  "apply_template ''{year}'' [] (''a'' @ [backslash] @ ''d'') [] = Inl ReError \<and>
   apply_template ''{year}'' [] (''a'' @ [backslash] @ ''n'') [] = Inr (''a'' @ [newline])"
  by code_simp

text \<open>The year 89 has fewer than four characters and loses its two digits.\<close>

theorem year_placeholder_counterexample:
  "apply_template ''{Author}{year}'' ''Smith'' ''89'' [] = Inr ''Smith'' \<and>
   apply_template ''{Author}{year}'' ''Smith'' ''89'' [] \<noteq> Inr ''Smith89''"
  by code_simp

subsection \<open>The citation keys of the default template\<close>







lemma set_dict_set: "set (dict_set dc k v) \<subseteq> insert (k, v) (set dc)"
  by (induction dc) auto


lemma index_all_dict_set:
  assumes "index_all P e" and "P c en"
  shows "index_all P (dict_set e c (dict_set (case map_of e c of None \<Rightarrow> [] | Some b \<Rightarrow> b) k en))"
proof -
  have b: "P c en'" if "(k', en') \<in> set (case map_of e c of None \<Rightarrow> [] | Some b \<Rightarrow> b)"
    for k' en'
  proof (cases "map_of e c")
    case None
    with that show ?thesis by simp
  next
    case (Some b0)
    then have "(c, b0) \<in> set e" by (rule map_of_SomeD)
    with that Some assms(1) show ?thesis by (auto simp: index_all_def)
  qed
  show ?thesis
    unfolding index_all_def
  proof (intro allI impI)
    fix c' bucket k' en'
    assume 1: "(c', bucket) \<in>
        set (dict_set e c (dict_set (case map_of e c of None \<Rightarrow> [] | Some b \<Rightarrow> b) k en))"
      and 2: "(k', en') \<in> set bucket"
    from 1 set_dict_set consider
      "c' = c" "bucket = dict_set (case map_of e c of None \<Rightarrow> [] | Some b \<Rightarrow> b) k en" |
      "(c', bucket) \<in> set e" by fastforce
    then show "P c' en'"
    proof cases
      case 1
      with 2 set_dict_set have "(k', en') = (k, en) \<or>
          (k', en') \<in> set (case map_of e c of None \<Rightarrow> [] | Some b \<Rightarrow> b)" by fastforce
      with b assms(2) 1 show ?thesis by auto
    next
      case 2
      with \<open>(k', en') \<in> set bucket\<close> assms(1) show ?thesis by (auto simp: index_all_def)
    qed
  qed
qed

lemma separate_by_collection_all:
  assumes "separate_by_collection dl t e = Inr e'" and "index_all P e"
    and "\<And>k en s c. (k, en) \<in> set t \<Longrightarrow>
      bind_err (dict_get (dict_set en ''alastnm'' (VStr s)) ''collection'') as_key = Inr c \<Longrightarrow>
      P c (dict_set en ''alastnm'' (VStr s))"
  shows "index_all P e'"
  using assms
proof (induction dl t e rule: separate_by_collection.induct)
  case (1 dl e)
  then show ?case by simp
next
  case (2 dl k en rest e)
  note run = "2.prems"(1) and inv = "2.prems"(2) and new = "2.prems"(3)
  have rest: "P c (dict_set en' ''alastnm'' (VStr s))"
    if "(k', en') \<in> set rest" and
      "bind_err (dict_get (dict_set en' ''alastnm'' (VStr s)) ''collection'') as_key = Inr c"
    for k' en' s c
  proof (rule new)
    from that(1) show "(k', en') \<in> set ((k, en) # rest)" by simp
    from that(2)
    show "bind_err (dict_get (dict_set en' ''alastnm'' (VStr s)) ''collection'') as_key = Inr c" .
  qed
  show ?case
  proof (cases "k \<in> set dl")
    case True
    show ?thesis
    proof (rule "2.IH"(1)[OF True])
      from run True show "separate_by_collection dl rest e = Inr e'" by simp
      show "index_all P e" by (rule inv)
      show "P c (dict_set en' ''alastnm'' (VStr s))"
        if "(k', en') \<in> set rest" and
          "bind_err (dict_get (dict_set en' ''alastnm'' (VStr s)) ''collection'') as_key = Inr c"
        for k' en' s c
        using that by (rule rest)
    qed
  next
    case False
    with run obtain ty where ty: "dict_get en ''etype'' = Inr ty"
      by (auto simp: bind_err_eq_Inr)
    show ?thesis
    proof (cases "ty = VStr ''attachment''")
      case True
      show ?thesis
      proof (rule "2.IH"(2)[OF False True])
        from run False ty True show "separate_by_collection dl rest e = Inr e'" by simp
        show "index_all P e" by (rule inv)
        show "P c (dict_set en' ''alastnm'' (VStr s))"
          if "(k', en') \<in> set rest" and
            "bind_err (dict_get (dict_set en' ''alastnm'' (VStr s)) ''collection'') as_key = Inr c"
          for k' en' s c
          using that by (rule rest)
      qed
    next
      case F2: False
      with run False ty obtain a s cv c where
        a: "dict_get en ''alastnm'' = Inr a" and s: "as_str a = Inr s" and
        cv: "dict_get (dict_set en ''alastnm'' (VStr (sub_leading_comma s))) ''collection'' = Inr cv" and
        c: "as_key cv = Inr c" and
        r: "separate_by_collection dl rest
              (dict_set e c
                 (dict_set (case map_of e c of None \<Rightarrow> [] | Some b \<Rightarrow> b) (py_str_int k)
                    (dict_set en ''alastnm'' (VStr (sub_leading_comma s))))) = Inr e'"
        by (auto simp: bind_err_eq_Inr)
      have "P c (dict_set en ''alastnm'' (VStr (sub_leading_comma s)))"
      proof (rule new)
        show "(k, en) \<in> set ((k, en) # rest)" by simp
        from cv c
        show "bind_err (dict_get (dict_set en ''alastnm'' (VStr (sub_leading_comma s)))
                ''collection'') as_key = Inr c"
          by simp
      qed
      with inv have filed: "index_all P (dict_set e c
                 (dict_set (case map_of e c of None \<Rightarrow> [] | Some b \<Rightarrow> b) (py_str_int k)
                    (dict_set en ''alastnm'' (VStr (sub_leading_comma s)))))"
        by (rule index_all_dict_set)
      show ?thesis
      proof (rule "2.IH"(3)[OF False F2])
        show "separate_by_collection dl rest
              (dict_set e c
                 (dict_set (case map_of e c of None \<Rightarrow> [] | Some b \<Rightarrow> b) (py_str_int k)
                    (dict_set en ''alastnm'' (VStr (sub_leading_comma s))))) = Inr e'"
          by (rule r)
        show "index_all P (dict_set e c
                 (dict_set (case map_of e c of None \<Rightarrow> [] | Some b \<Rightarrow> b) (py_str_int k)
                    (dict_set en ''alastnm'' (VStr (sub_leading_comma s)))))"
          by (rule filed)
        show "P c' (dict_set en' ''alastnm'' (VStr s'))"
          if "(k', en') \<in> set rest" and
            "bind_err (dict_get (dict_set en' ''alastnm'' (VStr s')) ''collection'') as_key = Inr c'"
          for k' en' s' c'
          using that by (rule rest)
      qed
    qed
  qed
qed



subsection \<open>The collection that is kept\<close>

lemma coll_of_set_if_present:
  "coll_of (set_if_present t i ''collection'' v) k =
     (if i = k \<and> dict_has t k then Inr v else coll_of t k)"
  by (auto simp: coll_of_def set_if_present_def dict_get_def map_of_dict_set dict_has_map_of
      split: option.splits)

lemma dict_has_set_if_present: "dict_has (set_if_present t i key v) k = dict_has t k"
  using keys_set_if_present[of t i key v] by (simp add: dict_has_def)

lemma coll_of_add_collection:
  "coll_of (add_collection rows t) k =
     (if dict_has t k \<and> filter (\<lambda>r. fst r = k) rows \<noteq> []
      then Inr (VStr (snd (last (filter (\<lambda>r. fst r = k) rows))))
      else coll_of t k)"
proof (induction rows t rule: add_collection.induct)
  case (1 t)
  then show ?case by simp
next
  case (2 item_id item_collection rows t)
  then show ?case
    by (auto simp: coll_of_set_if_present dict_has_set_if_present)
qed

lemma sorted_last_max: "sorted xs \<Longrightarrow> x \<in> set xs \<Longrightarrow> x \<le> last xs"
  by (induction xs) auto

lemma sorted_key_last_max:
  assumes "sorted (map f xs)" and "x \<in> set (filter P xs)"
  shows "f x \<le> f (last (filter P xs))"
proof -
  from assms(1) have "sorted (map f (filter P xs))" by (rule sorted_filter)
  moreover from assms(2) have "f x \<in> set (map f (filter P xs))" by auto
  ultimately have "f x \<le> last (map f (filter P xs))" by (rule sorted_last_max)
  moreover from assms(2) have "filter P xs \<noteq> []" by (metis empty_iff empty_set)
  ultimately show ?thesis by (simp add: last_map)
qed

text \<open>The collection pass: the last row of an item wins, and the rows named "To Read"
  come first.\<close>

lemma add_collection_preference:
  assumes "dict_has t k" and "(k, c) \<in> set (collectionItems db)"
  shows "\<exists>c'. (k, c') \<in> set (collectionItems db) \<and>
           bind_err (dict_get (add_collection (collection_query db) t) k)
             (\<lambda>en. dict_get en ''collection'') = Inr (VStr c') \<and>
           (c' = ''To Read'' \<longleftrightarrow>
              (\<forall>x. (k, x) \<in> set (collectionItems db) \<longrightarrow> x = ''To Read''))"
proof -
  let ?f = "\<lambda>r::int \<times> string. (snd r \<noteq> ''To Read'', snd r)"
  let ?rows = "collection_query db"
  let ?mine = "filter (\<lambda>r. fst r = k) ?rows"
  have set_rows: "set ?rows = set (collectionItems db)" by (simp add: collection_query_def)
  have srt: "sorted (map ?f ?rows)" by (simp add: collection_query_def)
  from assms(2) set_rows have "(k, c) \<in> set ?mine" by simp
  then have ne: "?mine \<noteq> []" by (metis empty_iff empty_set)
  then have "last ?mine \<in> set ?mine" by (rule last_in_set)
  then have l1: "fst (last ?mine) = k" and l2: "last ?mine \<in> set (collectionItems db)"
    using set_rows by auto
  have stored: "bind_err (dict_get (add_collection ?rows t) k) (\<lambda>en. dict_get en ''collection'') =
      Inr (VStr (snd (last ?mine)))"
    using coll_of_add_collection[of ?rows t k] assms(1) ne by (simp add: coll_of_def)
  have pref: "x = ''To Read''" if "snd (last ?mine) = ''To Read''" and "(k, x) \<in> set (collectionItems db)" for x
  proof -
    from that(2) set_rows have "(k, x) \<in> set ?mine" by auto
    with srt have "?f (k, x) \<le> ?f (last ?mine)" by (rule sorted_key_last_max)
    with that(1) show ?thesis by (auto simp: less_eq_prod_def)
  qed
  have "(k, snd (last ?mine)) \<in> set (collectionItems db)"
    using l1 l2 by (metis prod.collapse)
  with stored pref show ?thesis by (intro exI[of _ "snd (last ?mine)"]) auto
qed

text \<open>The passes that follow leave the value under \<^verbatim>\<open>'collection'\<close> as it is.\<close>

lemma coll_of_dict_set:
  "coll_of (dict_set t i en) k = (if i = k then dict_get en ''collection'' else coll_of t k)"
  by (simp add: coll_of_def dict_get_def map_of_dict_set)

lemma coll_of_Cons:
  "coll_of ((i, en) # t) k = (if i = k then dict_get en ''collection'' else coll_of t k)"
  by (simp add: coll_of_def dict_get_def)

lemma coll_of_other_field:
  "key \<noteq> ''collection'' \<Longrightarrow> coll_of (set_if_present t i key v) k = coll_of t k"
  by (auto simp: set_if_present_def coll_of_dict_set coll_of_def dict_get_def map_of_dict_set
      split: option.splits)

lemma coll_of_add_type: "coll_of (add_type rows t) k = coll_of t k"
  by (induction rows t rule: add_type.induct) (simp_all add: coll_of_other_field)

lemma coll_of_add_note: "coll_of (add_note rows t) k = coll_of t k"
  by (induction rows t rule: add_note.induct) (simp_all add: coll_of_other_field)

lemma add_author_collection:
  assumes "add_author en ctype lastname firstname = Inr en'"
    and "dict_get en ''collection'' = Inr (VStr c)"
  shows "dict_get en' ''collection'' = Inr (VStr c)"
proof -
  have ne: "ctype \<noteq> ''collection''"
  proof
    assume "ctype = ''collection''"
    with assms show False
      by (auto simp: add_author_def dict_has_map_of dict_get_eq_Inr bind_err_eq_Inr)
  qed
  with assms show ?thesis
    by (auto simp: add_author_def bind_err_eq_Inr dict_get_def map_of_dict_set
        split: if_splits)
qed

lemma coll_of_add_authors:
  "add_authors rows t = Inr t' \<Longrightarrow> coll_of t k = Inr (VStr c) \<Longrightarrow> coll_of t' k = Inr (VStr c)"
proof (induction rows t rule: add_authors.induct)
  case (1 t)
  then show ?case by simp
next
  case (2 item_id ctype lastname firstname rows t)
  show ?case
  proof (cases "map_of t item_id")
    case None
    with 2 show ?thesis by simp
  next
    case (Some en)
    with "2.prems"(1) obtain en' where a: "add_author en ctype lastname firstname = Inr en'"
      and r: "add_authors rows (dict_set t item_id en') = Inr t'"
      by (auto simp: bind_err_eq_Inr)
    have "coll_of (dict_set t item_id en') k = Inr (VStr c)"
    proof (cases "item_id = k")
      case True
      with Some "2.prems"(2) have "dict_get en ''collection'' = Inr (VStr c)"
        by (simp add: coll_of_def dict_get_def)
      with a True show ?thesis by (simp add: coll_of_dict_set add_author_collection)
    next
      case False
      with "2.prems"(2) show ?thesis by (simp add: coll_of_dict_set)
    qed
    with "2.IH"(2)[OF Some r] show ?thesis .
  qed
qed

lemma coll_of_add_tags:
  "add_tags rows t = Inr t' \<Longrightarrow> coll_of t' k = coll_of t k"
proof (induction rows t rule: add_tags.induct)
  case (1 t)
  then show ?case by simp
next
  case (2 item_id item_tag rows t)
  show ?case
  proof (cases "map_of t item_id")
    case None
    with 2 show ?thesis by simp
  next
    case (Some en)
    with "2.prems" obtain new where
      r: "add_tags rows (dict_set t item_id (dict_set en ''tags'' new)) = Inr t'"
      by (auto simp: bind_err_eq_Inr)
    from Some have "coll_of (dict_set t item_id (dict_set en ''tags'' new)) k = coll_of t k"
      by (simp add: coll_of_dict_set coll_of_def dict_get_def map_of_dict_set)
    with "2.IH"(2)[OF Some r] show ?thesis by simp
  qed
qed

lemma coll_of_add_attachments:
  "add_attachments rows t = Inr t' \<Longrightarrow> coll_of t' k = coll_of t k"
proof (induction rows t rule: add_attachments.induct)
  case (1 t)
  then show ?case by simp
next
  case (2 pKey pId aPath rows t)
  from "2.prems" obtain en where en: "dict_get t pId = Inr en" and
    r: "add_attachments rows
          (dict_set t pId (dict_set en ''attachment'' (VStr (pKey @ '':'' @ aPath)))) = Inr t'"
    by (auto simp: bind_err_eq_Inr)
  from en have "coll_of (dict_set t pId (dict_set en ''attachment'' (VStr (pKey @ '':'' @ aPath)))) k =
      coll_of t k"
    by (simp add: coll_of_dict_set coll_of_def dict_get_def map_of_dict_set split: option.splits)
  with "2.IH"[OF r] show ?case by simp
qed

lemma calculate_citekey_collection:
  "calculate_citekey cite w en = Inr en' \<Longrightarrow>
   dict_get en' ''collection'' = dict_get en ''collection''"
  by (auto simp: calculate_citekey_def entry_titlew_def bind_err_eq_Inr dict_get_def
      map_of_dict_set split: if_splits)

lemma coll_of_calculate_citekeys:
  "calculate_citekeys cite w t = Inr t' \<Longrightarrow> coll_of t' k = coll_of t k"
proof (induction t arbitrary: t')
  case Nil
  then show ?case by simp
next
  case (Cons p t)
  obtain i en where p: "p = (i, en)" by (cases p)
  from Cons.prems p obtain en' rest where
    a: "calculate_citekey cite w en = Inr en'" and
    b: "calculate_citekeys cite w t = Inr rest" and c: "t' = (i, en') # rest"
    by (auto simp: bind_err_eq_Inr)
  from Cons.IH[OF b] calculate_citekey_collection[OF a] p c show ?case
    by (simp add: coll_of_Cons)
qed

lemma working_map_collection:
  assumes "working_map cite w db = Inr t"
    and "coll_of (add_collection (collection_query db) (add_most_fields (itemData db) [])) k =
           Inr (VStr c)"
  shows "coll_of t k = Inr (VStr c)"
proof -
  from assms(1) obtain t3 t6 t7 where
    a: "add_authors (creators_query db)
          (add_collection (collection_query db) (add_most_fields (itemData db) [])) = Inr t3" and
    b: "add_tags (itemTags db) (add_note (itemNotes db) (add_type (itemTypes db) t3)) = Inr t6" and
    c: "add_attachments (itemAttachments db) t6 = Inr t7" and
    d: "calculate_citekeys cite w t7 = Inr t"
    by (auto simp: working_map_def merge_tables_def merge_before_attachments_def bind_err_eq_Inr)
  from coll_of_add_authors[OF a assms(2)] have "coll_of t3 k = Inr (VStr c)" .
  with coll_of_add_tags[OF b] have "coll_of t6 k = Inr (VStr c)"
    by (simp add: coll_of_add_note coll_of_add_type)
  with coll_of_add_attachments[OF c] have "coll_of t7 k = Inr (VStr c)" by simp
  with coll_of_calculate_citekeys[OF d] show ?thesis by simp
qed

text \<open>In the index every entry is filed under the value it has under
  \<^verbatim>\<open>'collection'\<close>.\<close>

lemma filed_under_collection:
  assumes "build_index cite w db = Inr e" and "(c, bucket) \<in> set e" and "(i, en) \<in> set bucket"
  shows "bind_err (dict_get en ''collection'') as_key = Inr c"
proof -
  from assms(1) obtain t where
    "separate_by_collection (deletedItems db) t [] = Inr e"
    by (auto simp: build_index_def bind_err_eq_Inr)
  moreover have "index_all (\<lambda>c en. bind_err (dict_get en ''collection'') as_key = Inr c) []"
    by (simp add: index_all_def)
  ultimately have "index_all (\<lambda>c en. bind_err (dict_get en ''collection'') as_key = Inr c) e"
    by (rule separate_by_collection_all)
  with assms(2,3) show ?thesis by (auto simp: index_all_def)
qed

text \<open>
  C8. For an item that has field/value rows and is in at least one collection, the
  working map of a load cycle holds under \<^verbatim>\<open>'collection'\<close> the name of one of the
  collections of the item, and that name is "To Read" only when every collection of
  the item has that name.
\<close>

theorem collection_preference:
  assumes "working_map cite w db = Inr t" and "k \<in> fst ` set (itemData db)"
    and "(k, c) \<in> set (collectionItems db)"
  shows "\<exists>c'. (k, c') \<in> set (collectionItems db) \<and>
           bind_err (dict_get t k) (\<lambda>en. dict_get en ''collection'') = Inr (VStr c') \<and>
           (c' = ''To Read'' \<longleftrightarrow>
              (\<forall>x. (k, x) \<in> set (collectionItems db) \<longrightarrow> x = ''To Read''))"
proof -
  from assms(2) have "dict_has (add_most_fields (itemData db) []) k"
    by (simp add: dict_has_def keys_add_most_fields)
  from add_collection_preference[OF this assms(3)] obtain c' where
    1: "(k, c') \<in> set (collectionItems db)" and
    2: "coll_of (add_collection (collection_query db) (add_most_fields (itemData db) [])) k =
          Inr (VStr c')" and
    3: "c' = ''To Read'' \<longleftrightarrow> (\<forall>x. (k, x) \<in> set (collectionItems db) \<longrightarrow> x = ''To Read'')"
    unfolding coll_of_def by blast
  from working_map_collection[OF assms(1) 2] have "coll_of t k = Inr (VStr c')" .
  with 1 3 show ?thesis unfolding coll_of_def by blast
qed

theorem collection_preference_witness:
  "working_map default_cite default_w library_db \<noteq> Inl KeyError \<and>
   1 \<in> fst ` set (itemData library_db) \<and>
   (1, ''To Read'') \<in> set (collectionItems library_db) \<and>
   (\<exists>c'. (1, c') \<in> set (collectionItems library_db) \<and>
      bind_err (working_map default_cite default_w library_db)
        (\<lambda>t. bind_err (dict_get t 1) (\<lambda>en. dict_get en ''collection'')) = Inr (VStr c') \<and>
      (c' = ''To Read'' \<longleftrightarrow>
         (\<forall>x. (1, x) \<in> set (collectionItems library_db) \<longrightarrow> x = ''To Read''))) \<and>
   bind_err (working_map default_cite default_w library_db)
     (\<lambda>t. bind_err (dict_get t 1) (\<lambda>en. dict_get en ''collection'')) = Inr (VStr ''Systems'')"
proof -
  have v: "bind_err (working_map default_cite default_w library_db)
     (\<lambda>t. bind_err (dict_get t 1) (\<lambda>en. dict_get en ''collection'')) = Inr (VStr ''Systems'')"
    by code_simp
  then obtain t where h0: "working_map default_cite default_w library_db = Inr t"
    by (auto simp: bind_err_eq_Inr)
  have h1: "1 \<in> fst ` set (itemData library_db)" by code_simp
  have h2: "(1, ''To Read'') \<in> set (collectionItems library_db)" by code_simp
  from collection_preference[OF h0 h1 h2] h0 h1 h2 v show ?thesis by simp
qed

end
